theory Spec2Isabelle
  imports Complex_Main
begin

section \<open>Data model (src/types/timer.ts and the interfaces of src/lib/storage.ts)\<close>

text \<open>
  JavaScript numbers are modelled exactly: durations in minutes are rationals
  (\<open>0.2\<close> is \<open>1/5\<close>), counters and seconds are integers. Rounding error, NaN and
  the infinities of IEEE doubles are outside the model. Instants are integers,
  the milliseconds since the epoch that a \<open>Date\<close> holds; an ISO timestamp string
  stands for its instant, and the date string \<open>toISOString().split('T')[0]\<close> for
  the number of its UTC day.
\<close>

datatype phase = Focus | Break | LongBreak

datatype theme = Light | Dark | System

record TimerConfig =
  focusDuration :: rat
  breakDuration :: rat
  longBreakDuration :: rat
  sessionsUntilLongBreak :: int

record TimerState =
  isRunning :: bool
  isPaused :: bool
  currentPhase :: phase
  timeRemaining :: int
  completedSessions :: int

record UserPreferences =
  theme :: theme
  notifications :: bool
  sound :: bool
  autoStartBreaks :: bool
  autoStartPomodoros :: bool

text \<open>\<open>SessionData\<close>; the field \<open>id\<close> is \<open>session_id\<close> here.\<close>

record SessionData =
  session_id :: string
  startTime :: int
  endTime :: int
  phase :: phase
  completed :: bool
  duration :: int

text \<open>
  \<open>Statistics\<close>; its field \<open>completedSessions\<close> is \<open>stats_completedSessions\<close> here
  (the timer state has a field of the same name). \<open>lastSessionDate\<close> is \<open>None\<close>
  for \<open>null\<close> and a UTC day number for a date string.
\<close>

record Statistics =
  totalFocusTime :: int
  totalBreakTime :: int
  stats_completedSessions :: int
  dailyStreak :: int
  lastSessionDate :: "int option"

subsection \<open>What is persisted\<close>

text \<open>
  The objects that \<open>JSON.parse\<close> yields for the three object-valued keys: every
  field may be missing (\<open>None\<close>). For the configuration \<open>None\<close> also stands for
  \<open>null\<close>, which \<open>??\<close> treats as missing. A field that is present has the type of
  the TypeScript interface.
\<close>

record TimerConfig_json =
  focusDuration_opt :: "rat option"
  breakDuration_opt :: "rat option"
  longBreakDuration_opt :: "rat option"
  sessionsUntilLongBreak_opt :: "int option"

record UserPreferences_json =
  theme_opt :: "theme option"
  notifications_opt :: "bool option"
  sound_opt :: "bool option"
  autoStartBreaks_opt :: "bool option"
  autoStartPomodoros_opt :: "bool option"

record Statistics_json =
  totalFocusTime_opt :: "int option"
  totalBreakTime_opt :: "int option"
  completedSessions_opt :: "int option"
  dailyStreak_opt :: "int option"
  lastSessionDate_opt :: "int option option"

text \<open>
  The string held under a key of \<open>localStorage\<close>: the empty string, a non-empty
  string that is no JSON text (\<open>JSON.parse\<close> throws a \<open>SyntaxError\<close> on it), or
  a JSON text, given by the value it parses to.
\<close>

datatype 'a item = EmptyText | Malformed | Json 'a

text \<open>
  The storage keys are the fields; \<open>None\<close> is a key that is absent.
  \<open>isClient\<close> is the module's constant of that name.
\<close>

record storage =
  isClient :: bool
  PREFERENCES :: "UserPreferences_json item option"
  SESSIONS :: "SessionData list item option"
  STATISTICS :: "Statistics_json item option"
  TIMER_CONFIG :: "TimerConfig_json item option"

datatype error = SyntaxError

subsection \<open>Default values\<close>

definition DEFAULT_PREFERENCES :: UserPreferences where
  "DEFAULT_PREFERENCES =
     \<lparr>theme = System, notifications = True, sound = True,
      autoStartBreaks = True, autoStartPomodoros = False\<rparr>"

definition DEFAULT_CONFIG :: TimerConfig where
  "DEFAULT_CONFIG =
     \<lparr>focusDuration = 1/5, breakDuration = 1/10, longBreakDuration = 3/20,
      sessionsUntilLongBreak = 4\<rparr>"

definition DEFAULT_STATISTICS :: Statistics where
  "DEFAULT_STATISTICS =
     \<lparr>totalFocusTime = 0, totalBreakTime = 0, stats_completedSessions = 0,
      dailyStreak = 0, lastSessionDate = None\<rparr>"

subsection \<open>JSON.stringify of the typed objects\<close>

definition stringify_preferences :: "UserPreferences \<Rightarrow> UserPreferences_json item" where
  "stringify_preferences p =
     Json \<lparr>theme_opt = Some (theme p), notifications_opt = Some (notifications p),
           sound_opt = Some (sound p), autoStartBreaks_opt = Some (autoStartBreaks p),
           autoStartPomodoros_opt = Some (autoStartPomodoros p)\<rparr>"

definition stringify_config :: "TimerConfig \<Rightarrow> TimerConfig_json item" where
  "stringify_config c =
     Json \<lparr>focusDuration_opt = Some (focusDuration c),
           breakDuration_opt = Some (breakDuration c),
           longBreakDuration_opt = Some (longBreakDuration c),
           sessionsUntilLongBreak_opt = Some (sessionsUntilLongBreak c)\<rparr>"

definition stringify_statistics :: "Statistics \<Rightarrow> Statistics_json item" where
  "stringify_statistics s =
     Json \<lparr>totalFocusTime_opt = Some (totalFocusTime s),
           totalBreakTime_opt = Some (totalBreakTime s),
           completedSessions_opt = Some (stats_completedSessions s),
           dailyStreak_opt = Some (dailyStreak s),
           lastSessionDate_opt = Some (lastSessionDate s)\<rparr>"

section \<open>The storage module (src/lib/storage.ts)\<close>

text \<open>
  \<open>safeLocalStorage\<close>. The calls of \<open>localStorage\<close> themselves are taken to succeed:
  the \<open>catch\<close> branches, which log and go on, are not exercised.
  A key is named by its field, and by the update of its field where it is written.
\<close>

definition getItem :: "storage \<Rightarrow> (storage \<Rightarrow> 'a item option) \<Rightarrow> 'a item option" where
  "getItem s key = (if \<not> isClient s then None else key s)"

definition setItem ::
  "storage \<Rightarrow> (('a item option \<Rightarrow> 'a item option) \<Rightarrow> storage \<Rightarrow> storage) \<Rightarrow> 'a item \<Rightarrow> storage"
where
  "setItem s key_update v = (if \<not> isClient s then s else key_update (\<lambda>_. Some v) s)"

definition removeItem ::
  "storage \<Rightarrow> (('a item option \<Rightarrow> 'a item option) \<Rightarrow> storage \<Rightarrow> storage) \<Rightarrow> storage"
where
  "removeItem s key_update = (if \<not> isClient s then s else key_update (\<lambda>_. None) s)"

text \<open>\<open>!x\<close> for what \<open>getItem\<close> returns: \<open>null\<close> and the empty string are falsy.\<close>

fun falsy :: "'a item option \<Rightarrow> bool" where
  "falsy None = True"
| "falsy (Some EmptyText) = True"
| "falsy (Some _) = False"

definition initializeStorage :: "storage \<Rightarrow> storage" where
  "initializeStorage s =
     (if \<not> isClient s then s
      else
        let s1 = (if falsy (getItem s PREFERENCES)
                  then setItem s PREFERENCES_update (stringify_preferences DEFAULT_PREFERENCES)
                  else s);
            s2 = (if falsy (getItem s1 TIMER_CONFIG)
                  then setItem s1 TIMER_CONFIG_update (stringify_config DEFAULT_CONFIG)
                  else s1);
            s3 = (if falsy (getItem s2 SESSIONS)
                  then setItem s2 SESSIONS_update (Json [])
                  else s2);
            s4 = (if falsy (getItem s3 STATISTICS)
                  then setItem s3 STATISTICS_update (stringify_statistics DEFAULT_STATISTICS)
                  else s3)
        in s4)"

text \<open>
  The read operations call \<open>initializeStorage\<close> first, which writes. Each is given as
  the value it returns (or the error it throws) from the storage it is called on; the
  storage it leaves is \<open>initializeStorage s\<close>.
\<close>

text \<open>\<open>{ ...DEFAULT_PREFERENCES, ...parsedPreferences }\<close>\<close>

definition spread_preferences :: "UserPreferences \<Rightarrow> UserPreferences_json \<Rightarrow> UserPreferences" where
  "spread_preferences d p =
     \<lparr>theme = (case theme_opt p of None \<Rightarrow> theme d | Some v \<Rightarrow> v),
      notifications = (case notifications_opt p of None \<Rightarrow> notifications d | Some v \<Rightarrow> v),
      sound = (case sound_opt p of None \<Rightarrow> sound d | Some v \<Rightarrow> v),
      autoStartBreaks = (case autoStartBreaks_opt p of None \<Rightarrow> autoStartBreaks d | Some v \<Rightarrow> v),
      autoStartPomodoros =
        (case autoStartPomodoros_opt p of None \<Rightarrow> autoStartPomodoros d | Some v \<Rightarrow> v)\<rparr>"

definition getPreferences :: "storage \<Rightarrow> error + UserPreferences" where
  "getPreferences s =
     (case getItem (initializeStorage s) PREFERENCES of
        None \<Rightarrow> Inr DEFAULT_PREFERENCES
      | Some EmptyText \<Rightarrow> Inr DEFAULT_PREFERENCES
      | Some Malformed \<Rightarrow> Inl SyntaxError
      | Some (Json parsedPreferences) \<Rightarrow>
          Inr (spread_preferences DEFAULT_PREFERENCES parsedPreferences))"

text \<open>
  \<open>savePreferences\<close>: the argument has every field of \<open>UserPreferences\<close>, so the spread
  over the defaults is the argument.
\<close>

definition savePreferences :: "UserPreferences \<Rightarrow> storage \<Rightarrow> storage" where
  "savePreferences preferences s =
     (let validatedPreferences = preferences
      in setItem s PREFERENCES_update (stringify_preferences validatedPreferences))"

text \<open>\<open>x ?? d\<close>\<close>

definition nullish :: "'a option \<Rightarrow> 'a \<Rightarrow> 'a" where
  "nullish x d = (case x of None \<Rightarrow> d | Some v \<Rightarrow> v)"

definition getTimerConfig :: "storage \<Rightarrow> error + TimerConfig" where
  "getTimerConfig s =
     (case getItem (initializeStorage s) TIMER_CONFIG of
        None \<Rightarrow> Inr DEFAULT_CONFIG
      | Some EmptyText \<Rightarrow> Inr DEFAULT_CONFIG
      | Some Malformed \<Rightarrow> Inl SyntaxError
      | Some (Json parsedConfig) \<Rightarrow>
          Inr \<lparr>focusDuration =
                 max (1/10) (nullish (focusDuration_opt parsedConfig) (focusDuration DEFAULT_CONFIG)),
               breakDuration =
                 max (1/10) (nullish (breakDuration_opt parsedConfig) (breakDuration DEFAULT_CONFIG)),
               longBreakDuration =
                 max (1/10)
                   (nullish (longBreakDuration_opt parsedConfig) (longBreakDuration DEFAULT_CONFIG)),
               sessionsUntilLongBreak =
                 max 1
                   (nullish (sessionsUntilLongBreak_opt parsedConfig)
                      (sessionsUntilLongBreak DEFAULT_CONFIG))\<rparr>)"

definition saveTimerConfig :: "TimerConfig \<Rightarrow> storage \<Rightarrow> storage" where
  "saveTimerConfig config s =
     (let validatedConfig =
            \<lparr>focusDuration = max (1/10) (focusDuration config),
             breakDuration = max (1/10) (breakDuration config),
             longBreakDuration = max (1/10) (longBreakDuration config),
             sessionsUntilLongBreak = max 1 (sessionsUntilLongBreak config)\<rparr>
      in setItem s TIMER_CONFIG_update (stringify_config validatedConfig))"

definition getSessions :: "storage \<Rightarrow> error + SessionData list" where
  "getSessions s =
     (case getItem (initializeStorage s) SESSIONS of
        None \<Rightarrow> Inr []
      | Some EmptyText \<Rightarrow> Inr []
      | Some Malformed \<Rightarrow> Inl SyntaxError
      | Some (Json sessions) \<Rightarrow> Inr sessions)"

text \<open>\<open>{ ...DEFAULT_STATISTICS, ...parsedStats }\<close>\<close>

definition spread_statistics :: "Statistics \<Rightarrow> Statistics_json \<Rightarrow> Statistics" where
  "spread_statistics d p =
     \<lparr>totalFocusTime = (case totalFocusTime_opt p of None \<Rightarrow> totalFocusTime d | Some v \<Rightarrow> v),
      totalBreakTime = (case totalBreakTime_opt p of None \<Rightarrow> totalBreakTime d | Some v \<Rightarrow> v),
      stats_completedSessions =
        (case completedSessions_opt p of None \<Rightarrow> stats_completedSessions d | Some v \<Rightarrow> v),
      dailyStreak = (case dailyStreak_opt p of None \<Rightarrow> dailyStreak d | Some v \<Rightarrow> v),
      lastSessionDate = (case lastSessionDate_opt p of None \<Rightarrow> lastSessionDate d | Some v \<Rightarrow> v)\<rparr>"

definition getStatistics :: "storage \<Rightarrow> error + Statistics" where
  "getStatistics s =
     (case getItem (initializeStorage s) STATISTICS of
        None \<Rightarrow> Inr DEFAULT_STATISTICS
      | Some EmptyText \<Rightarrow> Inr DEFAULT_STATISTICS
      | Some Malformed \<Rightarrow> Inl SyntaxError
      | Some (Json parsedStats) \<Rightarrow> Inr (spread_statistics DEFAULT_STATISTICS parsedStats))"

subsection \<open>Dates\<close>

text \<open>
  A \<open>Date\<close> is its time value \<open>t\<close>, in milliseconds. \<open>toISOString().split('T')[0]\<close>
  is the UTC date of \<open>t\<close>, given by its day number \<open>Day(t) = floor(t / msPerDay)\<close>;
  \<open>new Date(s)\<close> of a date string \<open>s\<close> is midnight UTC of that day.
  The local time zone is a parameter: \<open>LocalTZA_utc t\<close> is the offset of local time
  from UTC at the instant \<open>t\<close>, \<open>LocalTZA_local t\<close> the offset that belongs to the
  local time value \<open>t\<close> (ECMAScript's \<open>LocalTZA(t, true)\<close> and \<open>LocalTZA(t, false)\<close>).
\<close>

definition msPerDay :: int where
  "msPerDay = 86400000"

definition toISODate :: "int \<Rightarrow> int" where
  "toISODate t = t div msPerDay"

definition parseISODate :: "int \<Rightarrow> int" where
  "parseISODate d = d * msPerDay"

record timezone =
  LocalTZA_utc :: "int \<Rightarrow> int"
  LocalTZA_local :: "int \<Rightarrow> int"

definition LocalTime :: "timezone \<Rightarrow> int \<Rightarrow> int" where
  "LocalTime tz t = t + LocalTZA_utc tz t"

definition UTC :: "timezone \<Rightarrow> int \<Rightarrow> int" where
  "UTC tz t = t - LocalTZA_local tz t"

text \<open>
  \<open>d.setDate(d.getDate() - 1)\<close>: \<open>getDate\<close> reads the day of the month of the local
  time \<open>LocalTime(t)\<close>, and \<open>setDate\<close> builds
  \<open>MakeDate(MakeDay(year, month, date - 1), TimeWithinDay(LocalTime(t)))\<close>, the local
  time one day earlier with the same time within the day, and stores its \<open>UTC\<close>.
\<close>

definition setDate_previous :: "timezone \<Rightarrow> int \<Rightarrow> int" where
  "setDate_previous tz t = UTC tz (LocalTime tz t - msPerDay)"

subsection \<open>Sessions and statistics\<close>

text \<open>
  \<open>updateStatistics\<close>. \<open>now\<close> is the instant that \<open>new Date()\<close> gives, read twice by
  the source within the one call and taken to be the same instant. Without a client
  \<open>getStatistics\<close> returns the object \<open>DEFAULT_STATISTICS\<close> itself, which the
  source then updates in place; the defaults are constants here, so that this effect in
  memory is left out. Sessions are recorded on a client only.
\<close>

definition updateStatistics :: "timezone \<Rightarrow> int \<Rightarrow> SessionData \<Rightarrow> storage \<Rightarrow> error + storage" where
  "updateStatistics tz now session s =
     (case getStatistics s of
        Inl e \<Rightarrow> Inl e
      | Inr stats \<Rightarrow>
          let today = toISODate now;
              stats1 = (if phase session = Focus
                        then stats\<lparr>totalFocusTime := totalFocusTime stats + duration session\<rparr>
                        else stats\<lparr>totalBreakTime := totalBreakTime stats + duration session\<rparr>);
              stats2 = (if completed session
                        then stats1\<lparr>stats_completedSessions := stats_completedSessions stats1 + 1\<rparr>
                        else stats1);
              stats3 =
                (case lastSessionDate stats2 of
                   Some lastSession \<Rightarrow>
                     let lastDate = parseISODate lastSession;
                         yesterday = setDate_previous tz now
                     in if today = lastSession then stats2
                        else if toISODate lastDate = toISODate yesterday
                        then stats2\<lparr>dailyStreak := dailyStreak stats2 + 1\<rparr>
                        else stats2\<lparr>dailyStreak := 1\<rparr>
                 | None \<Rightarrow> stats2\<lparr>dailyStreak := 1\<rparr>);
              stats4 = stats3\<lparr>lastSessionDate := Some today\<rparr>
          in Inr (setItem (initializeStorage s) STATISTICS_update (stringify_statistics stats4)))"

text \<open>
  \<open>saveSession\<close>. The argument is a session without \<open>id\<close>: the \<open>session_id\<close> of the
  record passed is not read. \<open>uuid\<close> is what \<open>crypto.randomUUID()\<close> returns.
\<close>

definition saveSession ::
  "timezone \<Rightarrow> int \<Rightarrow> string \<Rightarrow> SessionData \<Rightarrow> storage \<Rightarrow> error + storage"
where
  "saveSession tz now uuid session s =
     (case getSessions s of
        Inl e \<Rightarrow> Inl e
      | Inr sessions \<Rightarrow>
          let newSession = session\<lparr>session_id := uuid\<rparr>;
              s1 = setItem (initializeStorage s) SESSIONS_update (Json (sessions @ [newSession]))
          in updateStatistics tz now session s1)"

definition clearAllData :: "storage \<Rightarrow> storage" where
  "clearAllData s =
     (if \<not> isClient s then s
      else
        let s1 = removeItem s PREFERENCES_update;
            s2 = removeItem s1 SESSIONS_update;
            s3 = removeItem s2 STATISTICS_update;
            s4 = removeItem s3 TIMER_CONFIG_update
        in initializeStorage s4)"

subsection \<open>Backup\<close>

text \<open>
  The object of a backup: a section is \<open>None\<close> when it is missing (or falsy). A section
  that is present has the type that \<open>exportData\<close> writes. The backup string is an
  \<open>item\<close>, as the strings of the storage are.
\<close>

record backup =
  backup_preferences :: "UserPreferences option"
  backup_timerConfig :: "TimerConfig option"
  backup_sessions :: "SessionData list option"
  backup_statistics :: "Statistics option"

definition exportData :: "storage \<Rightarrow> error + backup item" where
  "exportData s =
     (case getPreferences s of
        Inl e \<Rightarrow> Inl e
      | Inr p \<Rightarrow>
     (case getTimerConfig s of
        Inl e \<Rightarrow> Inl e
      | Inr c \<Rightarrow>
     (case getSessions s of
        Inl e \<Rightarrow> Inl e
      | Inr ss \<Rightarrow>
     (case getStatistics s of
        Inl e \<Rightarrow> Inl e
      | Inr st \<Rightarrow>
          Inr (Json \<lparr>backup_preferences = Some p, backup_timerConfig = Some c,
                     backup_sessions = Some ss, backup_statistics = Some st\<rparr>)))))"

text \<open>
  \<open>importData\<close> returns its boolean and the storage it leaves. \<open>JSON.parse\<close> throws on
  the empty string and on a malformed one; the \<open>catch\<close> returns \<open>false\<close>.
\<close>

definition importData :: "backup item \<Rightarrow> storage \<Rightarrow> bool \<times> storage" where
  "importData jsonData s =
     (if \<not> isClient s then (False, s)
      else
        (case jsonData of
           EmptyText \<Rightarrow> (False, s)
         | Malformed \<Rightarrow> (False, s)
         | Json data \<Rightarrow>
             let s1 = (case backup_preferences data of Some p \<Rightarrow> savePreferences p s | None \<Rightarrow> s);
                 s2 = (case backup_timerConfig data of Some c \<Rightarrow> saveTimerConfig c s1 | None \<Rightarrow> s1);
                 s3 = (case backup_sessions data of
                         Some ss \<Rightarrow> setItem s2 SESSIONS_update (Json ss) | None \<Rightarrow> s2);
                 s4 = (case backup_statistics data of
                         Some st \<Rightarrow> setItem s3 STATISTICS_update (stringify_statistics st)
                       | None \<Rightarrow> s3)
             in (True, s4)))"

section \<open>The timer (src/components/features/Timer.tsx)\<close>

text \<open>
  The component's state: the values of its \<open>useState\<close> hooks, the storage, and the
  callbacks that \<open>setTimeout\<close> holds. A callback is given by what its closure
  captured when it was created: \<open>handlePhaseComplete\<close> and \<open>resetTimer\<close> read
  \<open>state\<close> and \<open>config\<close> of the render they belong to, while the \<open>prev\<close> of a
  \<open>setState\<close> updater is the state at the time the callback runs. Every event is
  taken to find the component rendered with its latest state. The audio subsystem
  (\<open>initializeSounds\<close>, \<open>playSound\<close>) is not modelled.
\<close>

datatype timeout =
  PhaseTimeout phase int TimerConfig
| ResetTimeout phase TimerConfig

record machine =
  store :: storage
  config :: TimerConfig
  stats :: Statistics
  state :: TimerState
  isTransitioning :: bool
  isMuted :: bool
  sessionStartTime :: "int option"
  timeouts :: "timeout list"

text \<open>\<open>Math.round\<close> rounds to the nearest integer, a half upwards.\<close>

definition Math_round :: "rat \<Rightarrow> int" where
  "Math_round x = \<lfloor>x + 1/2\<rfloor>"

text \<open>
  \<open>a % b\<close> on integers: \<open>NaN\<close> (\<open>None\<close>) for a zero divisor, else the remainder of
  the truncating division, with the sign of the dividend.
\<close>

definition js_rem :: "int \<Rightarrow> int \<Rightarrow> int option" where
  "js_rem a b = (if b = 0 then None else Some (sgn a * (\<bar>a\<bar> mod \<bar>b\<bar>)))"

fun getCurrentPhaseDuration :: "TimerConfig \<Rightarrow> phase \<Rightarrow> rat" where
  "getCurrentPhaseDuration cfg Focus = focusDuration cfg"
| "getCurrentPhaseDuration cfg Break = breakDuration cfg"
| "getCurrentPhaseDuration cfg LongBreak = longBreakDuration cfg"

text \<open>
  The initial render and the mount effect: the \<open>useState\<close> initialisers and the
  effect read the configuration, the statistics and the preferences.
\<close>

definition mount :: "storage \<Rightarrow> error + machine" where
  "mount s =
     (case getTimerConfig s of
        Inl e \<Rightarrow> Inl e
      | Inr savedConfig \<Rightarrow>
     (case getStatistics s of
        Inl e \<Rightarrow> Inl e
      | Inr currentStats \<Rightarrow>
     (case getPreferences s of
        Inl e \<Rightarrow> Inl e
      | Inr preferences \<Rightarrow>
          Inr \<lparr>store = initializeStorage s,
               config = savedConfig,
               stats = currentStats,
               state = \<lparr>isRunning = False, isPaused = False, currentPhase = Focus,
                        timeRemaining = Math_round (focusDuration savedConfig * 60),
                        completedSessions = stats_completedSessions currentStats\<rparr>,
               isTransitioning = False,
               isMuted = (\<not> sound preferences),
               sessionStartTime = None,
               timeouts = []\<rparr>)))"

definition saveCompletedSession :: "timezone \<Rightarrow> int \<Rightarrow> string \<Rightarrow> machine \<Rightarrow> error + machine" where
  "saveCompletedSession tz now uuid m =
     (case sessionStartTime m of
        None \<Rightarrow> Inr m
      | Some started \<Rightarrow>
          let session =
                \<lparr>session_id = [], startTime = started, endTime = now,
                 phase = currentPhase (state m), completed = True,
                 duration =
                   Math_round (getCurrentPhaseDuration (config m) (currentPhase (state m)) * 60)\<rparr>
          in (case saveSession tz now uuid session (store m) of
                Inl e \<Rightarrow> Inl e
              | Inr s1 \<Rightarrow>
                  (case getStatistics s1 of
                     Inl e \<Rightarrow> Inl e
                   | Inr updatedStats \<Rightarrow>
                       Inr (m\<lparr>store := initializeStorage s1,
                              stats := updatedStats,
                              state := (state m)\<lparr>completedSessions :=
                                stats_completedSessions updatedStats\<rparr>\<rparr>))))"

text \<open>
  \<open>handlePhaseComplete\<close>, up to the call of \<open>setTimeout\<close>: \<open>nextPhase\<close> and
  \<open>nextSessionCount\<close> come from the \<open>state\<close> of the render, not from what
  \<open>saveCompletedSession\<close> has just set.
\<close>

definition handlePhaseComplete :: "timezone \<Rightarrow> int \<Rightarrow> string \<Rightarrow> machine \<Rightarrow> error + machine" where
  "handlePhaseComplete tz now uuid m =
     (case saveCompletedSession tz now uuid (m\<lparr>isTransitioning := True\<rparr>) of
        Inl e \<Rightarrow> Inl e
      | Inr m1 \<Rightarrow>
          let nextPhase =
                (if currentPhase (state m) = Focus
                 then (if js_rem (completedSessions (state m) + 1)
                            (sessionsUntilLongBreak (config m)) = Some 0
                       then LongBreak else Break)
                 else Focus);
              nextSessionCount =
                (if currentPhase (state m) = Focus
                 then completedSessions (state m) + 1
                 else completedSessions (state m))
          in Inr (m1\<lparr>timeouts := timeouts m1 @ [PhaseTimeout nextPhase nextSessionCount (config m)]\<rparr>))"

text \<open>The callbacks of \<open>setTimeout\<close>, run at the instant \<open>now\<close>.\<close>

fun runTimeout :: "timeout \<Rightarrow> int \<Rightarrow> machine \<Rightarrow> machine" where
  "runTimeout (PhaseTimeout nextPhase nextSessionCount cfg) now m =
     (let m1 = m\<lparr>state := (state m)\<lparr>isRunning := (nextPhase \<noteq> Focus),
                                       currentPhase := nextPhase,
                                       timeRemaining :=
                                         Math_round (getCurrentPhaseDuration cfg nextPhase * 60),
                                       completedSessions := nextSessionCount\<rparr>,
                  isTransitioning := False\<rparr>
      in if nextPhase \<noteq> Focus then m1\<lparr>sessionStartTime := Some now\<rparr> else m1)"
| "runTimeout (ResetTimeout ph cfg) now m =
     m\<lparr>state := (state m)\<lparr>isRunning := False, isPaused := False,
                            timeRemaining := Math_round (getCurrentPhaseDuration cfg ph * 60)\<rparr>,
       isTransitioning := False\<rparr>"

definition startTimer :: "int \<Rightarrow> machine \<Rightarrow> machine" where
  "startTimer now m =
     m\<lparr>sessionStartTime := Some now,
       state := (state m)\<lparr>isRunning := True, isPaused := False\<rparr>\<rparr>"

definition pauseTimer :: "machine \<Rightarrow> machine" where
  "pauseTimer m = m\<lparr>state := (state m)\<lparr>isPaused := True\<rparr>\<rparr>"

definition resetTimer :: "machine \<Rightarrow> machine" where
  "resetTimer m =
     m\<lparr>isTransitioning := True,
       sessionStartTime := None,
       timeouts := timeouts m @ [ResetTimeout (currentPhase (state m)) (config m)]\<rparr>"

text \<open>
  One firing of the interval of the tick effect. The effect sets the interval up only
  while the timer runs, is not paused and is not transitioning.
\<close>

definition tick :: "timezone \<Rightarrow> int \<Rightarrow> string \<Rightarrow> machine \<Rightarrow> error + machine" where
  "tick tz now uuid m =
     (if isRunning (state m) \<and> \<not> isPaused (state m) \<and> \<not> isTransitioning m
      then (if timeRemaining (state m) \<le> 0
            then handlePhaseComplete tz now uuid m
            else Inr (m\<lparr>state := (state m)\<lparr>timeRemaining := timeRemaining (state m) - 1\<rparr>\<rparr>))
      else Inr m)"

definition handleMuteToggle :: "machine \<Rightarrow> error + machine" where
  "handleMuteToggle m =
     (let newMutedState = (\<not> isMuted m)
      in (case getPreferences (store m) of
            Inl e \<Rightarrow> Inl e
          | Inr preferences \<Rightarrow>
              Inr (m\<lparr>isMuted := newMutedState,
                     store := savePreferences (preferences\<lparr>sound := (\<not> newMutedState)\<rparr>)
                                (initializeStorage (store m))\<rparr>)))"

definition handleSettingsChange :: "machine \<Rightarrow> error + machine" where
  "handleSettingsChange m =
     (case getTimerConfig (store m) of
        Inl e \<Rightarrow> Inl e
      | Inr newConfig \<Rightarrow>
     (case getPreferences (store m) of
        Inl e \<Rightarrow> Inl e
      | Inr preferences \<Rightarrow>
          let m1 = m\<lparr>store := initializeStorage (store m),
                     config := newConfig,
                     isMuted := (\<not> sound preferences)\<rparr>
          in Inr (if \<not> isRunning (state m)
                  then m1\<lparr>state := (state m)\<lparr>timeRemaining :=
                         Math_round (focusDuration newConfig * 60)\<rparr>\<rparr>
                  else m1)))"

subsection \<open>Runs\<close>

text \<open>
  What can happen to a mounted timer: the three buttons, a firing of the interval, the
  firing of the pending timeout at a position of the queue, the mute button, and the
  settings panel, which saves a configuration with \<open>saveTimerConfig\<close> and calls
  \<open>onSettingsChange\<close>. An event carries what it reads from outside: the instant and
  the fresh identifier.
\<close>

datatype event =
  Start int
| Pause
| Reset
| Tick int string
| Timeout nat int
| MuteToggle
| SettingsSaved TimerConfig

fun step :: "timezone \<Rightarrow> event \<Rightarrow> machine \<Rightarrow> error + machine" where
  "step tz (Start now) m = Inr (startTimer now m)"
| "step tz Pause m = Inr (pauseTimer m)"
| "step tz Reset m = Inr (resetTimer m)"
| "step tz (Tick now uuid) m = tick tz now uuid m"
| "step tz (Timeout i now) m =
     (if i < length (timeouts m)
      then Inr (runTimeout (timeouts m ! i) now
                  (m\<lparr>timeouts := take i (timeouts m) @ drop (Suc i) (timeouts m)\<rparr>))
      else Inr m)"
| "step tz MuteToggle m = handleMuteToggle m"
| "step tz (SettingsSaved c) m = handleSettingsChange (m\<lparr>store := saveTimerConfig c (store m)\<rparr>)"

fun run :: "timezone \<Rightarrow> event list \<Rightarrow> machine \<Rightarrow> error + machine" where
  "run tz [] m = Inr m"
| "run tz (e # es) m = (case step tz e m of Inl err \<Rightarrow> Inl err | Inr m1 \<Rightarrow> run tz es m1)"

section \<open>Inputs and auxiliary definitions of the properties\<close>

text \<open>
  The rule of the specification for a duration read from the store, in its words: a
  duration that is missing or not positive is replaced by the default, and the result
  is clamped to a minimum of 0.1 minutes.
\<close>

definition spec_replace_and_clamp :: "rat \<Rightarrow> rat option \<Rightarrow> rat" where
  "spec_replace_and_clamp d v =
     max (1/10) (case v of None \<Rightarrow> d | Some x \<Rightarrow> if x \<le> 0 then d else x)"

text \<open>A store whose configuration has a focus duration of \<open>-5\<close> minutes.\<close>

definition store_negative_focus :: storage where
  "store_negative_focus =
     \<lparr>isClient = True, PREFERENCES = None, SESSIONS = None, STATISTICS = None,
      TIMER_CONFIG =
        Some (Json \<lparr>focusDuration_opt = Some (- 5), breakDuration_opt = Some 5,
                    longBreakDuration_opt = Some 15, sessionsUntilLongBreak_opt = Some 4\<rparr>)\<rparr>"

text \<open>A store with no key, and stores that hold a string that is no JSON text.\<close>

definition store_absent :: storage where
  "store_absent =
     \<lparr>isClient = True, PREFERENCES = None, SESSIONS = None, STATISTICS = None,
      TIMER_CONFIG = None\<rparr>"

definition store_malformed :: storage where
  "store_malformed =
     \<lparr>isClient = True, PREFERENCES = Some Malformed, SESSIONS = Some Malformed,
      STATISTICS = Some Malformed, TIMER_CONFIG = Some Malformed\<rparr>"

definition store_malformed_preferences :: storage where
  "store_malformed_preferences =
     \<lparr>isClient = True, PREFERENCES = Some Malformed, SESSIONS = Some (Json []),
      STATISTICS = Some (stringify_statistics DEFAULT_STATISTICS),
      TIMER_CONFIG = Some (stringify_config DEFAULT_CONFIG)\<rparr>"

text \<open>No key of the store holds a string that is no JSON text.\<close>

definition well_formed :: "storage \<Rightarrow> bool" where
  "well_formed s \<longleftrightarrow>
     PREFERENCES s \<noteq> Some Malformed \<and> TIMER_CONFIG s \<noteq> Some Malformed \<and>
     SESSIONS s \<noteq> Some Malformed \<and> STATISTICS s \<noteq> Some Malformed"

text \<open>
  Two time zones. \<open>utc\<close> has no offset. \<open>new_york\<close> is America/New_York around the
  end of daylight saving time in 2024: four hours behind UTC before
  2024-11-03T06:00:00Z (\<open>1730613600000\<close>), five hours behind from then on; as a
  function of the local time value the change is at 02:00 local time
  (\<open>1730599200000\<close>).
\<close>

definition utc :: timezone where
  "utc = \<lparr>LocalTZA_utc = (\<lambda>t. 0), LocalTZA_local = (\<lambda>t. 0)\<rparr>"

definition new_york :: timezone where
  "new_york =
     \<lparr>LocalTZA_utc = (\<lambda>t. if t < 1730613600000 then - 14400000 else - 18000000),
      LocalTZA_local = (\<lambda>t. if t < 1730599200000 then - 14400000 else - 18000000)\<rparr>"

text \<open>
  Statistics with a streak of three days whose last session was on 2024-11-03 (day
  \<open>20030\<close>), and a focus session of twelve seconds that ends at 2024-11-04T00:30:00Z
  (\<open>1730680200000\<close>, on day \<open>20031\<close>), which is 19:30 on 2024-11-03 in New York.
\<close>

definition store_streak :: storage where
  "store_streak =
     \<lparr>isClient = True, PREFERENCES = None, SESSIONS = None,
      STATISTICS =
        Some (Json \<lparr>totalFocusTime_opt = Some 36, totalBreakTime_opt = Some 12,
                    completedSessions_opt = Some 5, dailyStreak_opt = Some 3,
                    lastSessionDate_opt = Some (Some 20030)\<rparr>),
      TIMER_CONFIG = None\<rparr>"

definition session_example :: SessionData where
  "session_example =
     \<lparr>session_id = [], startTime = 1730680188000, endTime = 1730680200000,
      phase = Focus, completed = True, duration = 12\<rparr>"

text \<open>
  The invariant of the timer: the configuration in use and the configurations that the
  pending timeouts captured have positive durations, and the time remaining is not
  negative.
\<close>

definition valid_config :: "TimerConfig \<Rightarrow> bool" where
  "valid_config c \<longleftrightarrow>
     0 < focusDuration c \<and> 0 < breakDuration c \<and> 0 < longBreakDuration c \<and>
     1 \<le> sessionsUntilLongBreak c"

fun timeout_config :: "timeout \<Rightarrow> TimerConfig" where
  "timeout_config (PhaseTimeout nextPhase nextSessionCount cfg) = cfg"
| "timeout_config (ResetTimeout ph cfg) = cfg"

definition timer_inv :: "machine \<Rightarrow> bool" where
  "timer_inv m \<longleftrightarrow>
     valid_config (config m) \<and> 0 \<le> timeRemaining (state m) \<and>
     list_all (\<lambda>t. valid_config (timeout_config t)) (timeouts m)"

text \<open>
  Two stores differ only in \<open>autoStartBreaks\<close> and \<open>autoStartPomodoros\<close>: all keys
  but the preferences are equal, and the preferences are both absent, both empty, both
  malformed, or objects with the same \<open>theme\<close>, \<open>notifications\<close> and \<open>sound\<close>.
  \<open>machines_agree\<close> lifts this to the timer; \<open>observe\<close> is what the claim compares:
  the timer state and the session history.
\<close>

definition prefs_json_agree :: "UserPreferences_json \<Rightarrow> UserPreferences_json \<Rightarrow> bool" where
  "prefs_json_agree p q \<longleftrightarrow>
     theme_opt p = theme_opt q \<and> notifications_opt p = notifications_opt q \<and>
     sound_opt p = sound_opt q"

definition differ_only_autoStart :: "storage \<Rightarrow> storage \<Rightarrow> bool" where
  "differ_only_autoStart s1 s2 \<longleftrightarrow>
     isClient s1 = isClient s2 \<and> SESSIONS s1 = SESSIONS s2 \<and>
     STATISTICS s1 = STATISTICS s2 \<and> TIMER_CONFIG s1 = TIMER_CONFIG s2 \<and>
     rel_option (rel_item prefs_json_agree) (PREFERENCES s1) (PREFERENCES s2)"

definition prefs_agree :: "UserPreferences \<Rightarrow> UserPreferences \<Rightarrow> bool" where
  "prefs_agree p q \<longleftrightarrow>
     theme p = theme q \<and> notifications p = notifications q \<and> sound p = sound q"

definition machines_agree :: "machine \<Rightarrow> machine \<Rightarrow> bool" where
  "machines_agree m1 m2 \<longleftrightarrow>
     differ_only_autoStart (store m1) (store m2) \<and> config m1 = config m2 \<and>
     stats m1 = stats m2 \<and> state m1 = state m2 \<and>
     isTransitioning m1 = isTransitioning m2 \<and> isMuted m1 = isMuted m2 \<and>
     sessionStartTime m1 = sessionStartTime m2 \<and> timeouts m1 = timeouts m2"

definition observe :: "machine \<Rightarrow> TimerState \<times> (error + SessionData list)" where
  "observe m = (state m, getSessions (store m))"

definition mounted_run :: "timezone \<Rightarrow> storage \<Rightarrow> event list \<Rightarrow> error + machine" where
  "mounted_run tz s es = (case mount s of Inl e \<Rightarrow> Inl e | Inr m \<Rightarrow> run tz es m)"

text \<open>States of the timer and stores for the examples.\<close>

definition machine_focus_done :: machine where
  "machine_focus_done =
     \<lparr>store = store_absent, config = DEFAULT_CONFIG, stats = DEFAULT_STATISTICS,
      state = \<lparr>isRunning = True, isPaused = False, currentPhase = Focus,
               timeRemaining = 0, completedSessions = 3\<rparr>,
      isTransitioning = False, isMuted = False,
      sessionStartTime = Some 1730680188000, timeouts = []\<rparr>"

definition machine_running_37 :: machine where
  "machine_running_37 =
     \<lparr>store = store_absent,
      config = \<lparr>focusDuration = 25, breakDuration = 5, longBreakDuration = 15,
                sessionsUntilLongBreak = 4\<rparr>,
      stats = DEFAULT_STATISTICS,
      state = \<lparr>isRunning = True, isPaused = False, currentPhase = Focus,
               timeRemaining = 37, completedSessions = 0\<rparr>,
      isTransitioning = False, isMuted = False,
      sessionStartTime = Some 1730680188000, timeouts = []\<rparr>"



text \<open>
  A run through one focus phase with the default configuration: start, twelve ticks
  down to zero, the tick that completes the phase, the timeout that starts the break,
  and the mute button.
\<close>

definition events_one_focus :: "event list" where
  "events_one_focus =
     Start 1730680188000 # replicate 13 (Tick 1730680200000 ''id-1'')
       @ [Timeout 0 1730680200500, MuteToggle]"

text \<open>
  Reset pressed while a phase completion is in transition, with the default
  configuration: start, twelve ticks, the tick that completes the focus phase (its timeout
  is due after 500 ms), the reset button (its timeout is due 300 ms after the click), and
  the two timeouts in the order of their due times. In the first run the button is
  pressed 250 ms after the completion, so that the timeout of the phase runs first; in
  the second it is pressed after 50 ms, so that the timeout of the reset runs first.
\<close>

definition events_reset_in_transition :: "event list" where
  "events_reset_in_transition =
     Start 1730680188000 # replicate 13 (Tick 1730680200000 ''id-1'')
       @ [Reset, Timeout 0 1730680200500, Timeout 0 1730680200550]"

definition events_reset_in_transition_early :: "event list" where
  "events_reset_in_transition_early =
     Start 1730680188000 # replicate 13 (Tick 1730680200000 ''id-1'')
       @ [Reset, Timeout 1 1730680200350, Timeout 0 1730680200500]"

definition store_autoStart_on :: storage where
  "store_autoStart_on =
     \<lparr>isClient = True,
      PREFERENCES =
        Some (Json \<lparr>theme_opt = Some Dark, notifications_opt = Some True,
                    sound_opt = Some False, autoStartBreaks_opt = Some True,
                    autoStartPomodoros_opt = Some True\<rparr>),
      SESSIONS = None, STATISTICS = None, TIMER_CONFIG = None\<rparr>"

definition store_autoStart_off :: storage where
  "store_autoStart_off =
     \<lparr>isClient = True,
      PREFERENCES =
        Some (Json \<lparr>theme_opt = Some Dark, notifications_opt = Some True,
                    sound_opt = Some False, autoStartBreaks_opt = Some False,
                    autoStartPomodoros_opt = None\<rparr>),
      SESSIONS = None, STATISTICS = None, TIMER_CONFIG = None\<rparr>"

section \<open>Properties of the storage module\<close>

subsection \<open>What a read finds after \<open>initializeStorage\<close>\<close>

lemma isClient_initializeStorage [simp]: "isClient (initializeStorage s) = isClient s"
  by (simp add: initializeStorage_def setItem_def getItem_def Let_def)

lemma getItem_init_PREFERENCES:
  "getItem (initializeStorage s) PREFERENCES =
     (if \<not> isClient s then None
      else if falsy (PREFERENCES s) then Some (stringify_preferences DEFAULT_PREFERENCES)
      else PREFERENCES s)"
  by (simp add: initializeStorage_def getItem_def setItem_def Let_def)

lemma getItem_init_TIMER_CONFIG:
  "getItem (initializeStorage s) TIMER_CONFIG =
     (if \<not> isClient s then None
      else if falsy (TIMER_CONFIG s) then Some (stringify_config DEFAULT_CONFIG)
      else TIMER_CONFIG s)"
  by (simp add: initializeStorage_def getItem_def setItem_def Let_def)

lemma getItem_init_SESSIONS:
  "getItem (initializeStorage s) SESSIONS =
     (if \<not> isClient s then None
      else if falsy (SESSIONS s) then Some (Json [])
      else SESSIONS s)"
  by (simp add: initializeStorage_def getItem_def setItem_def Let_def)

lemma getItem_init_STATISTICS:
  "getItem (initializeStorage s) STATISTICS =
     (if \<not> isClient s then None
      else if falsy (STATISTICS s) then Some (stringify_statistics DEFAULT_STATISTICS)
      else STATISTICS s)"
  by (simp add: initializeStorage_def getItem_def setItem_def Let_def)

lemmas getItem_init =
  getItem_init_PREFERENCES getItem_init_TIMER_CONFIG getItem_init_SESSIONS
  getItem_init_STATISTICS

subsection \<open>The timer configuration\<close>

lemma getTimerConfig_Json:
  assumes "isClient s" and "TIMER_CONFIG s = Some (Json p)"
  shows "getTimerConfig s =
     Inr \<lparr>focusDuration =
            max (1/10) (case focusDuration_opt p of
                          None \<Rightarrow> focusDuration DEFAULT_CONFIG | Some v \<Rightarrow> v),
          breakDuration =
            max (1/10) (case breakDuration_opt p of
                          None \<Rightarrow> breakDuration DEFAULT_CONFIG | Some v \<Rightarrow> v),
          longBreakDuration =
            max (1/10) (case longBreakDuration_opt p of
                          None \<Rightarrow> longBreakDuration DEFAULT_CONFIG | Some v \<Rightarrow> v),
          sessionsUntilLongBreak =
            max 1 (case sessionsUntilLongBreak_opt p of
                     None \<Rightarrow> sessionsUntilLongBreak DEFAULT_CONFIG | Some v \<Rightarrow> v)\<rparr>"
  using assms by (simp add: getTimerConfig_def getItem_init_TIMER_CONFIG nullish_def)

lemma getTimerConfig_default:
  assumes "\<not> isClient s \<or> falsy (TIMER_CONFIG s)"
  shows "getTimerConfig s = Inr DEFAULT_CONFIG"
proof (cases "isClient s")
  case False
  then show ?thesis by (simp add: getTimerConfig_def getItem_init_TIMER_CONFIG)
next
  case True
  with assms have "falsy (TIMER_CONFIG s)" by simp
  with True show ?thesis
    by (simp add: getTimerConfig_def getItem_init_TIMER_CONFIG stringify_config_def nullish_def
        DEFAULT_CONFIG_def)
qed

lemma saveTimerConfig_persists:
  assumes "isClient s"
  shows "TIMER_CONFIG (saveTimerConfig c s) =
     Some (Json \<lparr>focusDuration_opt = Some (max (1/10) (focusDuration c)),
                 breakDuration_opt = Some (max (1/10) (breakDuration c)),
                 longBreakDuration_opt = Some (max (1/10) (longBreakDuration c)),
                 sessionsUntilLongBreak_opt = Some (max 1 (sessionsUntilLongBreak c))\<rparr>)"
  using assms by (simp add: saveTimerConfig_def setItem_def stringify_config_def)

lemma getTimerConfig_returns:
  assumes "TIMER_CONFIG s \<noteq> Some Malformed"
  shows "\<exists>c. getTimerConfig s = Inr c"
proof (cases "TIMER_CONFIG s")
  case None
  then show ?thesis by (simp add: getTimerConfig_default)
next
  case (Some a)
  with assms show ?thesis
    by (cases a) (simp_all add: getTimerConfig_def getItem_init_TIMER_CONFIG stringify_config_def)
qed

lemma getTimerConfig_valid:
  assumes "getTimerConfig s = Inr c"
  shows "1/10 \<le> focusDuration c \<and> 1/10 \<le> breakDuration c \<and> 1/10 \<le> longBreakDuration c
     \<and> 1 \<le> sessionsUntilLongBreak c"
proof (cases "isClient s \<and> \<not> falsy (TIMER_CONFIG s)")
  case False
  then have "getTimerConfig s = Inr DEFAULT_CONFIG"
    by (intro getTimerConfig_default) auto
  with assms show ?thesis by (auto simp add: DEFAULT_CONFIG_def)
next
  case True
  with assms obtain p where "TIMER_CONFIG s = Some (Json p)"
    by (cases "TIMER_CONFIG s" rule: falsy.cases)
       (auto simp add: getTimerConfig_def getItem_init_TIMER_CONFIG)
  with True assms show ?thesis
    by (auto simp add: getTimerConfig_Json)
qed

text \<open>
  C3, as the specification words it, fails: a persisted focus duration of \<open>-5\<close> is read
  back as 0.1, the lower bound, while the rule of the specification gives the default
  0.2.
\<close>

theorem getTimerConfig_negative_is_not_default:
  "getTimerConfig store_negative_focus =
     Inr \<lparr>focusDuration = 1/10, breakDuration = 5, longBreakDuration = 15,
          sessionsUntilLongBreak = 4\<rparr>
   \<and> spec_replace_and_clamp (focusDuration DEFAULT_CONFIG) (Some (- 5)) = 1/5"
  by (simp add: getTimerConfig_def getItem_init_TIMER_CONFIG store_negative_focus_def
      nullish_def spec_replace_and_clamp_def DEFAULT_CONFIG_def)

text \<open>
  C3, amended: \<open>getTimerConfig\<close> replaces a missing field by its default and raises every
  duration to at least 0.1 and \<open>sessionsUntilLongBreak\<close> to at least 1, so that a
  duration that is present and not positive becomes 0.1, not the default; with no
  configuration under the key it returns the defaults; \<open>saveTimerConfig\<close> persists
  its argument with the same lower bounds; and \<open>getTimerConfig\<close> returns a
  configuration, raising nothing, whatever numbers are persisted.
\<close>

theorem timer_config_get_set_clamp:
  "(isClient s \<and> TIMER_CONFIG s = Some (Json p) \<longrightarrow>
      getTimerConfig s =
        Inr \<lparr>focusDuration =
               max (1/10) (case focusDuration_opt p of
                             None \<Rightarrow> focusDuration DEFAULT_CONFIG | Some v \<Rightarrow> v),
             breakDuration =
               max (1/10) (case breakDuration_opt p of
                             None \<Rightarrow> breakDuration DEFAULT_CONFIG | Some v \<Rightarrow> v),
             longBreakDuration =
               max (1/10) (case longBreakDuration_opt p of
                             None \<Rightarrow> longBreakDuration DEFAULT_CONFIG | Some v \<Rightarrow> v),
             sessionsUntilLongBreak =
               max 1 (case sessionsUntilLongBreak_opt p of
                        None \<Rightarrow> sessionsUntilLongBreak DEFAULT_CONFIG | Some v \<Rightarrow> v)\<rparr>)
   \<and> (\<not> isClient s \<or> falsy (TIMER_CONFIG s) \<longrightarrow> getTimerConfig s = Inr DEFAULT_CONFIG)
   \<and> (isClient s \<longrightarrow>
        TIMER_CONFIG (saveTimerConfig c s) =
          Some (Json \<lparr>focusDuration_opt = Some (max (1/10) (focusDuration c)),
                      breakDuration_opt = Some (max (1/10) (breakDuration c)),
                      longBreakDuration_opt = Some (max (1/10) (longBreakDuration c)),
                      sessionsUntilLongBreak_opt = Some (max 1 (sessionsUntilLongBreak c))\<rparr>))
   \<and> (TIMER_CONFIG s \<noteq> Some Malformed \<longrightarrow> (\<exists>c'. getTimerConfig s = Inr c'))"
proof (intro conjI impI)
  assume "isClient s \<and> TIMER_CONFIG s = Some (Json p)"
  then show "getTimerConfig s =
        Inr \<lparr>focusDuration =
               max (1/10) (case focusDuration_opt p of
                             None \<Rightarrow> focusDuration DEFAULT_CONFIG | Some v \<Rightarrow> v),
             breakDuration =
               max (1/10) (case breakDuration_opt p of
                             None \<Rightarrow> breakDuration DEFAULT_CONFIG | Some v \<Rightarrow> v),
             longBreakDuration =
               max (1/10) (case longBreakDuration_opt p of
                             None \<Rightarrow> longBreakDuration DEFAULT_CONFIG | Some v \<Rightarrow> v),
             sessionsUntilLongBreak =
               max 1 (case sessionsUntilLongBreak_opt p of
                        None \<Rightarrow> sessionsUntilLongBreak DEFAULT_CONFIG | Some v \<Rightarrow> v)\<rparr>"
    by (simp add: getTimerConfig_Json)
next
  assume "\<not> isClient s \<or> falsy (TIMER_CONFIG s)"
  then show "getTimerConfig s = Inr DEFAULT_CONFIG" by (rule getTimerConfig_default)
next
  assume "isClient s"
  then show "TIMER_CONFIG (saveTimerConfig c s) =
          Some (Json \<lparr>focusDuration_opt = Some (max (1/10) (focusDuration c)),
                      breakDuration_opt = Some (max (1/10) (breakDuration c)),
                      longBreakDuration_opt = Some (max (1/10) (longBreakDuration c)),
                      sessionsUntilLongBreak_opt = Some (max 1 (sessionsUntilLongBreak c))\<rparr>)"
    by (rule saveTimerConfig_persists)
next
  assume "TIMER_CONFIG s \<noteq> Some Malformed"
  then show "\<exists>c'. getTimerConfig s = Inr c'" by (rule getTimerConfig_returns)
qed

theorem timer_config_get_set_clamp_witness:
  "isClient store_negative_focus
   \<and> getTimerConfig store_negative_focus =
       Inr \<lparr>focusDuration = 1/10, breakDuration = 5, longBreakDuration = 15,
            sessionsUntilLongBreak = 4\<rparr>
   \<and> TIMER_CONFIG
        (saveTimerConfig \<lparr>focusDuration = - 3, breakDuration = 0, longBreakDuration = 1/20,
                          sessionsUntilLongBreak = 0\<rparr> store_negative_focus) =
       Some (Json \<lparr>focusDuration_opt = Some (1/10), breakDuration_opt = Some (1/10),
                   longBreakDuration_opt = Some (1/10), sessionsUntilLongBreak_opt = Some 1\<rparr>)"
  using timer_config_get_set_clamp
    [of store_negative_focus
        "\<lparr>focusDuration_opt = Some (- 5), breakDuration_opt = Some 5,
          longBreakDuration_opt = Some 15, sessionsUntilLongBreak_opt = Some 4\<rparr>"
        "\<lparr>focusDuration = - 3, breakDuration = 0, longBreakDuration = 1/20,
          sessionsUntilLongBreak = 0\<rparr>"]
  by (simp add: store_negative_focus_def)

text \<open>
  C8: whatever is persisted and whatever configuration is saved, the configuration that
  \<open>getTimerConfig\<close> returns and the one that \<open>saveTimerConfig\<close> persists have
  positive durations and a \<open>sessionsUntilLongBreak\<close> of at least 1.
\<close>

theorem timer_config_positive:
  "(getTimerConfig s = Inr c \<longrightarrow>
      0 < focusDuration c \<and> 0 < breakDuration c \<and> 0 < longBreakDuration c
      \<and> 1 \<le> sessionsUntilLongBreak c)
   \<and> (isClient s \<longrightarrow>
        (\<exists>c'. TIMER_CONFIG (saveTimerConfig cfg s) = Some (stringify_config c')
           \<and> 0 < focusDuration c' \<and> 0 < breakDuration c' \<and> 0 < longBreakDuration c'
           \<and> 1 \<le> sessionsUntilLongBreak c'))"
proof -
  have get: "0 < focusDuration c \<and> 0 < breakDuration c \<and> 0 < longBreakDuration c
      \<and> 1 \<le> sessionsUntilLongBreak c" if "getTimerConfig s = Inr c"
    using getTimerConfig_valid[OF that] by auto
  let ?c = "\<lparr>focusDuration = max (1/10) (focusDuration cfg),
             breakDuration = max (1/10) (breakDuration cfg),
             longBreakDuration = max (1/10) (longBreakDuration cfg),
             sessionsUntilLongBreak = max 1 (sessionsUntilLongBreak cfg)\<rparr>"
  have persisted: "TIMER_CONFIG (saveTimerConfig cfg s) = Some (stringify_config ?c)"
    if "isClient s"
    using that by (simp add: saveTimerConfig_def setItem_def)
  have positive: "0 < focusDuration ?c \<and> 0 < breakDuration ?c \<and> 0 < longBreakDuration ?c
      \<and> 1 \<le> sessionsUntilLongBreak ?c"
    by (simp add: max_def)
  from get persisted positive show ?thesis by blast
qed

theorem timer_config_positive_witness:
  "getTimerConfig store_negative_focus =
     Inr \<lparr>focusDuration = 1/10, breakDuration = 5, longBreakDuration = 15,
          sessionsUntilLongBreak = 4\<rparr>
   \<and> isClient store_negative_focus
   \<and> (\<exists>c'. TIMER_CONFIG
              (saveTimerConfig \<lparr>focusDuration = - 3, breakDuration = 0,
                                longBreakDuration = 1/20, sessionsUntilLongBreak = - 2\<rparr>
                 store_negative_focus) = Some (stringify_config c')
         \<and> 0 < focusDuration c' \<and> 0 < breakDuration c' \<and> 0 < longBreakDuration c'
         \<and> 1 \<le> sessionsUntilLongBreak c')"
proof -
  have get: "getTimerConfig store_negative_focus =
     Inr \<lparr>focusDuration = 1/10, breakDuration = 5, longBreakDuration = 15,
          sessionsUntilLongBreak = 4\<rparr>"
    by (simp add: getTimerConfig_def getItem_init_TIMER_CONFIG store_negative_focus_def
        nullish_def)
  have client: "isClient store_negative_focus"
    by (simp add: store_negative_focus_def)
  from timer_config_positive
         [of store_negative_focus
             "\<lparr>focusDuration = 1/10, breakDuration = 5, longBreakDuration = 15,
               sessionsUntilLongBreak = 4\<rparr>"
             "\<lparr>focusDuration = - 3, breakDuration = 0, longBreakDuration = 1/20,
               sessionsUntilLongBreak = - 2\<rparr>"]
  show ?thesis using get client by simp
qed

subsection \<open>Reading what is absent and what is malformed\<close>

lemma getPreferences_default:
  assumes "\<not> isClient s \<or> falsy (PREFERENCES s)"
  shows "getPreferences s = Inr DEFAULT_PREFERENCES"
  using assms
  by (cases "isClient s")
     (simp_all add: getPreferences_def getItem_init_PREFERENCES stringify_preferences_def
       spread_preferences_def DEFAULT_PREFERENCES_def)

lemma getPreferences_returns:
  assumes "PREFERENCES s \<noteq> Some Malformed"
  shows "\<exists>p. getPreferences s = Inr p"
proof (cases "PREFERENCES s")
  case None
  then show ?thesis
    by (simp add: getPreferences_def getItem_init_PREFERENCES stringify_preferences_def)
next
  case (Some a)
  with assms show ?thesis
    by (cases a) (simp_all add: getPreferences_def getItem_init_PREFERENCES stringify_preferences_def)
qed

lemma getSessions_returns:
  assumes "SESSIONS s \<noteq> Some Malformed"
  shows "\<exists>p. getSessions s = Inr p"
proof (cases "SESSIONS s")
  case None
  then show ?thesis
    by (simp add: getSessions_def getItem_init_SESSIONS)
next
  case (Some a)
  with assms show ?thesis
    by (cases a) (simp_all add: getSessions_def getItem_init_SESSIONS)
qed

lemma getStatistics_returns:
  assumes "STATISTICS s \<noteq> Some Malformed"
  shows "\<exists>p. getStatistics s = Inr p"
proof (cases "STATISTICS s")
  case None
  then show ?thesis
    by (simp add: getStatistics_def getItem_init_STATISTICS stringify_statistics_def)
next
  case (Some a)
  with assms show ?thesis
    by (cases a) (simp_all add: getStatistics_def getItem_init_STATISTICS stringify_statistics_def)
qed

text \<open>
  C4 fails on the code: a key that holds a string that is no JSON text makes each of the
  four read operations throw the \<open>SyntaxError\<close> of \<open>JSON.parse\<close>, while an absent
  key gives the defaults and the empty history.
\<close>

theorem malformed_item_raises:
  "getPreferences store_malformed = Inl SyntaxError
   \<and> getTimerConfig store_malformed = Inl SyntaxError
   \<and> getSessions store_malformed = Inl SyntaxError
   \<and> getStatistics store_malformed = Inl SyntaxError
   \<and> getPreferences store_absent = Inr DEFAULT_PREFERENCES
   \<and> getTimerConfig store_absent = Inr DEFAULT_CONFIG
   \<and> getSessions store_absent = Inr []
   \<and> getStatistics store_absent = Inr DEFAULT_STATISTICS"
  by (simp add: getPreferences_def getTimerConfig_def getSessions_def getStatistics_def
      getItem_init store_malformed_def store_absent_def stringify_preferences_def
      stringify_config_def stringify_statistics_def spread_preferences_def
      spread_statistics_def nullish_def DEFAULT_PREFERENCES_def DEFAULT_CONFIG_def
      DEFAULT_STATISTICS_def)

subsection \<open>Export and import\<close>

text \<open>
  On a client, an export that returns is imported with success, and the four sections
  read afterwards as they read before. The import runs on the storage that the reads of
  \<open>exportData\<close> have left.
\<close>

lemma export_import_roundtrip:
  assumes "isClient s" and "exportData s = Inr b"
  shows "\<exists>s'. importData b (initializeStorage s) = (True, s')
     \<and> getPreferences s' = getPreferences s
     \<and> getTimerConfig s' = getTimerConfig s
     \<and> getSessions s' = getSessions s
     \<and> getStatistics s' = getStatistics s"
proof -
  from assms(2) obtain p c ss st where
    g: "getPreferences s = Inr p" "getTimerConfig s = Inr c" "getSessions s = Inr ss"
       "getStatistics s = Inr st"
    and b: "b = Json \<lparr>backup_preferences = Some p, backup_timerConfig = Some c,
                      backup_sessions = Some ss, backup_statistics = Some st\<rparr>"
    by (auto simp add: exportData_def split: sum.splits)
  have ic: "isClient (initializeStorage s)" using assms(1) by simp
  define s' where "s' = snd (importData b (initializeStorage s))"
  have imp: "importData b (initializeStorage s) = (True, s')"
    using ic by (simp add: s'_def importData_def b Let_def)
  have s'_eq: "s' = setItem (setItem (saveTimerConfig c (savePreferences p (initializeStorage s)))
                      SESSIONS_update (Json ss)) STATISTICS_update (stringify_statistics st)"
    using ic by (simp add: s'_def importData_def b Let_def)
  have c_valid: "max (1/10) (focusDuration c) = focusDuration c"
     "max (1/10) (breakDuration c) = breakDuration c"
     "max (1/10) (longBreakDuration c) = longBreakDuration c"
     "max 1 (sessionsUntilLongBreak c) = sessionsUntilLongBreak c"
    using getTimerConfig_valid[OF g(2)] by simp_all
  have "getPreferences s' = Inr p"
    using ic
    by (simp add: s'_eq getPreferences_def getItem_init savePreferences_def saveTimerConfig_def
        setItem_def stringify_preferences_def spread_preferences_def)
  moreover have "getTimerConfig s' = Inr c"
    using ic c_valid
    by (simp add: s'_eq getTimerConfig_def getItem_init savePreferences_def saveTimerConfig_def
        setItem_def stringify_config_def nullish_def)
  moreover have "getSessions s' = Inr ss"
    using ic
    by (simp add: s'_eq getSessions_def getItem_init savePreferences_def saveTimerConfig_def
        setItem_def)
  moreover have "getStatistics s' = Inr st"
    using ic
    by (simp add: s'_eq getStatistics_def getItem_init savePreferences_def saveTimerConfig_def
        setItem_def stringify_statistics_def spread_statistics_def)
  ultimately show ?thesis using imp g by simp
qed

lemma exportData_returns:
  assumes "well_formed s"
  shows "\<exists>b. exportData s = Inr b"
proof -
  from assms obtain p c ss st where
    "getPreferences s = Inr p" "getTimerConfig s = Inr c" "getSessions s = Inr ss"
    "getStatistics s = Inr st"
    using getPreferences_returns getTimerConfig_returns getSessions_returns
      getStatistics_returns
    unfolding well_formed_def by metis
  then show ?thesis by (simp add: exportData_def)
qed

text \<open>
  C9 fails on the code for a store with a malformed key: \<open>exportData\<close> throws the
  \<open>SyntaxError\<close> of \<open>getPreferences\<close>, so that there is nothing to import.
\<close>

theorem exportData_malformed_raises:
  "exportData store_malformed_preferences = Inl SyntaxError
   \<and> getPreferences store_malformed_preferences = Inl SyntaxError"
  by (simp add: exportData_def getPreferences_def getItem_init store_malformed_preferences_def)

subsection \<open>The streak\<close>

lemma toISODate_parse [simp]: "toISODate (parseISODate d) = d"
  by (simp add: toISODate_def parseISODate_def msPerDay_def)

lemma toISODate_minus_day [simp]: "toISODate (t - msPerDay) = toISODate t - 1"
proof -
  have "(t + (- 1) * msPerDay) div msPerDay = - 1 + t div msPerDay"
    by (rule div_mult_self1) (simp add: msPerDay_def)
  then show ?thesis by (simp add: toISODate_def)
qed

lemma setDate_previous_fixed_offset:
  "LocalTZA_local tz (LocalTime tz now - msPerDay) = LocalTZA_utc tz now \<Longrightarrow>
   setDate_previous tz now = now - msPerDay"
  by (simp add: setDate_previous_def UTC_def LocalTime_def)

lemma getStatistics_setItem:
  "isClient s \<Longrightarrow> getStatistics (setItem s STATISTICS_update (stringify_statistics x)) = Inr x"
  by (simp add: getStatistics_def getItem_init_STATISTICS setItem_def stringify_statistics_def
      spread_statistics_def)

lemma updateStatistics_fixed_offset:
  assumes "getStatistics s = Inr st"
    and "LocalTZA_local tz (LocalTime tz now - msPerDay) = LocalTZA_utc tz now"
  shows "updateStatistics tz now session s =
     Inr (setItem (initializeStorage s) STATISTICS_update (stringify_statistics
       \<lparr>totalFocusTime = (if phase session = Focus then totalFocusTime st + duration session else totalFocusTime st),
        totalBreakTime = (if phase session = Focus then totalBreakTime st else totalBreakTime st + duration session),
        stats_completedSessions = (if completed session then stats_completedSessions st + 1 else stats_completedSessions st),
        dailyStreak =
          (case lastSessionDate st of
             None \<Rightarrow> 1
           | Some d \<Rightarrow> if d = toISODate now then dailyStreak st
                       else if d = toISODate now - 1 then dailyStreak st + 1 else 1),
        lastSessionDate = Some (toISODate now)\<rparr>))"
  using assms
  by (cases "lastSessionDate st")
     (auto simp add: updateStatistics_def Let_def setDate_previous_fixed_offset stringify_statistics_def)

text \<open>
  Where the offset of local time one local day before \<open>now\<close> is the offset at \<open>now\<close>,
  \<open>updateStatistics\<close> follows the case split on the UTC date: first session, same
  day, the day before, anything else.
\<close>

lemma streak_case_split_fixed_offset:
  assumes "getStatistics s = Inr st"
    and "LocalTZA_local tz (LocalTime tz now - msPerDay) = LocalTZA_utc tz now"
    and "isClient s"
  shows "map_sum id getStatistics (updateStatistics tz now session s) =
     Inr (Inr
       \<lparr>totalFocusTime =
          (if phase session = Focus then totalFocusTime st + duration session
           else totalFocusTime st),
        totalBreakTime =
          (if phase session = Focus then totalBreakTime st
           else totalBreakTime st + duration session),
        stats_completedSessions =
          (if completed session then stats_completedSessions st + 1
           else stats_completedSessions st),
        dailyStreak =
          (case lastSessionDate st of
             None \<Rightarrow> 1
           | Some d \<Rightarrow> if d = toISODate now then dailyStreak st
                       else if d = toISODate now - 1 then dailyStreak st + 1 else 1),
        lastSessionDate = Some (toISODate now)\<rparr>)"
  using assms(3)
  by (simp add: updateStatistics_fixed_offset[OF assms(1,2)] getStatistics_setItem)

text \<open>
  C1 fails on the code where the local day before \<open>now\<close> is not 24 hours long. In New
  York at 2024-11-04T00:30:00Z today is day \<open>20031\<close> and the last session was on day
  \<open>20030\<close>, one day before; \<open>yesterday\<close> is computed in local time, 25 hours back, and
  falls on day \<open>20029\<close>: the streak of 3 is reset to 1. With no offset it becomes 4.
\<close>

theorem streak_reset_on_consecutive_day:
  "toISODate 1730680200000 = 20031
   \<and> toISODate (setDate_previous new_york 1730680200000) = 20029
   \<and> map_sum id STATISTICS
        (updateStatistics new_york 1730680200000 session_example store_streak) =
       Inr (Some (Json \<lparr>totalFocusTime_opt = Some 48, totalBreakTime_opt = Some 12,
                        completedSessions_opt = Some 6, dailyStreak_opt = Some 1,
                        lastSessionDate_opt = Some (Some 20031)\<rparr>))
   \<and> map_sum id STATISTICS
        (updateStatistics utc 1730680200000 session_example store_streak) =
       Inr (Some (Json \<lparr>totalFocusTime_opt = Some 48, totalBreakTime_opt = Some 12,
                        completedSessions_opt = Some 6, dailyStreak_opt = Some 4,
                        lastSessionDate_opt = Some (Some 20031)\<rparr>))"
  by (simp add: updateStatistics_def getStatistics_def getItem_init_STATISTICS store_streak_def
      session_example_def new_york_def utc_def spread_statistics_def DEFAULT_STATISTICS_def
      toISODate_def parseISODate_def msPerDay_def setDate_previous_def UTC_def LocalTime_def
      stringify_statistics_def setItem_def Let_def)

section \<open>Properties of the timer\<close>

subsection \<open>Phase completion\<close>

lemma js_rem_zero_iff: "b \<noteq> 0 \<Longrightarrow> js_rem a b = Some 0 \<longleftrightarrow> a mod b = 0"
proof -
  assume b: "b \<noteq> 0"
  have "\<bar>a\<bar> mod \<bar>b\<bar> = 0 \<longleftrightarrow> a mod b = 0"
    by (simp add: mod_eq_0_iff_dvd)
  moreover have "a = 0 \<Longrightarrow> a mod b = 0" by simp
  ultimately show ?thesis using b
    by (auto simp add: js_rem_def sgn_if)
qed

lemma saveCompletedSession_fields:
  "saveCompletedSession tz now uuid m = Inr m1 \<Longrightarrow>
     timeouts m1 = timeouts m \<and> isTransitioning m1 = isTransitioning m \<and> config m1 = config m
     \<and> sessionStartTime m1 = sessionStartTime m \<and> isMuted m1 = isMuted m
     \<and> timeRemaining (state m1) = timeRemaining (state m)
     \<and> currentPhase (state m1) = currentPhase (state m)
     \<and> isRunning (state m1) = isRunning (state m)
     \<and> isPaused (state m1) = isPaused (state m)"
  by (auto simp add: saveCompletedSession_def Let_def split: option.splits sum.splits)

lemma handlePhaseComplete_timeouts:
  assumes "handlePhaseComplete tz now uuid m = Inr m1"
  shows "timeouts m1 = timeouts m @
     [PhaseTimeout
        (if currentPhase (state m) = Focus
         then (if js_rem (completedSessions (state m) + 1) (sessionsUntilLongBreak (config m)) = Some 0
               then LongBreak else Break)
         else Focus)
        (if currentPhase (state m) = Focus then completedSessions (state m) + 1
         else completedSessions (state m))
        (config m)]"
  using assms
  by (auto simp add: handlePhaseComplete_def Let_def split: sum.splits dest!: saveCompletedSession_fields)

lemma Math_round_nearest: "\<bar>of_int (Math_round x) - x\<bar> \<le> 1/2"
  unfolding Math_round_def by linarith

subsection \<open>The invariant\<close>

lemma handlePhaseComplete_fields:
  assumes "handlePhaseComplete tz now uuid m = Inr m1"
  shows "isTransitioning m1 \<and> timeRemaining (state m1) = timeRemaining (state m)
     \<and> config m1 = config m
     \<and> currentPhase (state m1) = currentPhase (state m)
     \<and> isRunning (state m1) = isRunning (state m) \<and> isPaused (state m1) = isPaused (state m)"
  using assms
  by (auto simp add: handlePhaseComplete_def Let_def split: sum.splits dest!: saveCompletedSession_fields)

lemma Math_round_nonneg: "0 \<le> x \<Longrightarrow> 0 \<le> Math_round x"
  by (simp add: Math_round_def)

lemma valid_config_duration: "valid_config c \<Longrightarrow> 0 \<le> Math_round (getCurrentPhaseDuration c ph * 60)"
  by (cases ph) (simp_all add: valid_config_def Math_round_nonneg)

lemma valid_config_rounds:
  assumes "valid_config c"
  shows "0 \<le> Math_round (focusDuration c * 60)" "0 \<le> Math_round (breakDuration c * 60)"
    "0 \<le> Math_round (longBreakDuration c * 60)"
  using assms by (simp_all add: valid_config_def Math_round_nonneg)

lemma getTimerConfig_valid_config: "getTimerConfig s = Inr c \<Longrightarrow> valid_config c"
  using getTimerConfig_valid[of s c] by (simp add: valid_config_def)

lemma inv_mount: "mount s = Inr m \<Longrightarrow> timer_inv m"
  by (auto simp add: mount_def timer_inv_def valid_config_rounds split: sum.splits
      dest!: getTimerConfig_valid_config)

lemma inv_tick:
  assumes "timer_inv m" and "tick tz now uuid m = Inr m1"
  shows "timer_inv m1"
proof (cases "isRunning (state m) \<and> \<not> isPaused (state m) \<and> \<not> isTransitioning m")
  case False
  with assms show ?thesis by (simp add: tick_def)
next
  case enabled: True
  show ?thesis
  proof (cases "timeRemaining (state m) \<le> 0")
    case True
    with enabled assms(2) have h: "handlePhaseComplete tz now uuid m = Inr m1"
      by (simp add: tick_def)
    from handlePhaseComplete_timeouts[OF h] handlePhaseComplete_fields[OF h] assms(1)
    show ?thesis by (simp add: timer_inv_def)
  next
    case False
    with enabled assms show ?thesis by (auto simp add: tick_def timer_inv_def)
  qed
qed

lemma inv_runTimeout:
  assumes "valid_config (timeout_config t)" and "timer_inv m"
  shows "timer_inv (runTimeout t now m)"
  using assms
  by (cases t) (simp_all add: timer_inv_def Let_def valid_config_duration valid_config_rounds)

lemma list_all_remove:
  "list_all P xs \<Longrightarrow> list_all P (take i xs @ drop (Suc i) xs)"
  by (auto simp add: list_all_iff dest: in_set_takeD in_set_dropD)

lemma inv_handleSettingsChange:
  assumes "timer_inv m" and "handleSettingsChange m = Inr m1"
  shows "timer_inv m1"
  using assms
  by (auto simp add: handleSettingsChange_def timer_inv_def Let_def valid_config_rounds
      split: sum.splits if_splits dest!: getTimerConfig_valid_config)

lemma inv_step:
  assumes "timer_inv m" and "step tz e m = Inr m1"
  shows "timer_inv m1"
proof (cases e)
  case (Start now)
  with assms show ?thesis by (auto simp add: startTimer_def timer_inv_def)
next
  case Pause
  with assms show ?thesis by (auto simp add: pauseTimer_def timer_inv_def)
next
  case Reset
  with assms show ?thesis by (auto simp add: resetTimer_def timer_inv_def)
next
  case (Tick now uuid)
  with assms inv_tick show ?thesis by auto
next
  case (Timeout i now)
  show ?thesis
  proof (cases "i < length (timeouts m)")
    case False
    with Timeout assms show ?thesis by simp
  next
    case True
    have v: "valid_config (timeout_config (timeouts m ! i))"
      using assms(1) True by (simp add: timer_inv_def list_all_length)
    have "timer_inv (m\<lparr>timeouts := take i (timeouts m) @ drop (Suc i) (timeouts m)\<rparr>)"
      using assms(1) list_all_remove[of _ "timeouts m" i] by (simp add: timer_inv_def)
    from inv_runTimeout[OF v this] True Timeout assms(2) show ?thesis by auto
  qed
next
  case MuteToggle
  with assms show ?thesis
    by (auto simp add: handleMuteToggle_def timer_inv_def Let_def split: sum.splits)
next
  case (SettingsSaved c)
  have "timer_inv (m\<lparr>store := saveTimerConfig c (store m)\<rparr>)"
    using assms(1) by (simp add: timer_inv_def)
  from inv_handleSettingsChange[OF this] SettingsSaved assms(2) show ?thesis by simp
qed

lemma inv_run:
  assumes "timer_inv m" and "run tz es m = Inr m1"
  shows "timer_inv m1"
  using assms
proof (induction es arbitrary: m)
  case Nil
  then show ?case by simp
next
  case (Cons e es)
  from Cons.prems(2) obtain m' where s: "step tz e m = Inr m'" and r: "run tz es m' = Inr m1"
    by (auto split: sum.splits)
  from Cons.IH[OF inv_step[OF Cons.prems(1) s] r] show ?case .
qed

subsection \<open>Runs that differ only in the auto-start preferences\<close>

lemma falsy_rel:
  "rel_option (rel_item R) a b \<Longrightarrow> falsy a = falsy b"
  by (cases a; cases b; simp) (auto elim: item.rel_cases)

lemma init_fields:
  "PREFERENCES (initializeStorage s) =
     (if isClient s \<and> falsy (PREFERENCES s) then Some (stringify_preferences DEFAULT_PREFERENCES)
      else PREFERENCES s)"
  "TIMER_CONFIG (initializeStorage s) =
     (if isClient s \<and> falsy (TIMER_CONFIG s) then Some (stringify_config DEFAULT_CONFIG)
      else TIMER_CONFIG s)"
  "SESSIONS (initializeStorage s) =
     (if isClient s \<and> falsy (SESSIONS s) then Some (Json []) else SESSIONS s)"
  "STATISTICS (initializeStorage s) =
     (if isClient s \<and> falsy (STATISTICS s) then Some (stringify_statistics DEFAULT_STATISTICS)
      else STATISTICS s)"
  by (simp_all add: initializeStorage_def getItem_def setItem_def Let_def)

lemma prefs_json_agree_refl [simp]: "prefs_json_agree p p"
  by (simp add: prefs_json_agree_def)

lemma differ_init:
  assumes "differ_only_autoStart s1 s2"
  shows "differ_only_autoStart (initializeStorage s1) (initializeStorage s2)"
  using assms falsy_rel[of prefs_json_agree "PREFERENCES s1" "PREFERENCES s2"]
  by (auto simp add: differ_only_autoStart_def init_fields stringify_preferences_def)

lemma differ_getTimerConfig:
  "differ_only_autoStart s1 s2 \<Longrightarrow> getTimerConfig s1 = getTimerConfig s2"
  by (simp add: differ_only_autoStart_def getTimerConfig_def getItem_init_TIMER_CONFIG)

lemma differ_getSessions:
  "differ_only_autoStart s1 s2 \<Longrightarrow> getSessions s1 = getSessions s2"
  by (simp add: differ_only_autoStart_def getSessions_def getItem_init_SESSIONS)

lemma differ_getStatistics:
  "differ_only_autoStart s1 s2 \<Longrightarrow> getStatistics s1 = getStatistics s2"
  by (simp add: differ_only_autoStart_def getStatistics_def getItem_init_STATISTICS)

lemma differ_getPreferences:
  assumes "differ_only_autoStart s1 s2"
  shows "rel_sum (=) prefs_agree (getPreferences s1) (getPreferences s2)"
proof -
  have r: "rel_option (rel_item prefs_json_agree) (PREFERENCES s1) (PREFERENCES s2)"
    and c: "isClient s1 = isClient s2"
    using assms by (simp_all add: differ_only_autoStart_def)
  show ?thesis
  proof (cases "isClient s1")
    case False
    with c show ?thesis
      by (simp add: getPreferences_def getItem_init_PREFERENCES prefs_agree_def)
  next
    case True
    from r show ?thesis
    proof (cases rule: option.rel_cases)
      case None
      with True c show ?thesis
        by (simp add: getPreferences_def getItem_init_PREFERENCES prefs_agree_def
            stringify_preferences_def)
    next
      case (Some x y)
      from Some(3) show ?thesis
      proof (cases rule: item.rel_cases)
        case EmptyText
        with Some True c show ?thesis
          by (simp add: getPreferences_def getItem_init_PREFERENCES prefs_agree_def
            stringify_preferences_def)
      next
        case Malformed
        with Some True c show ?thesis
          by (simp add: getPreferences_def getItem_init_PREFERENCES)
      next
        case (Json p q)
        with Some True c show ?thesis
          by (simp add: getPreferences_def getItem_init_PREFERENCES prefs_agree_def
              prefs_json_agree_def spread_preferences_def)
      qed
    qed
  qed
qed

lemma differ_savePreferences:
  "differ_only_autoStart s1 s2 \<Longrightarrow> prefs_agree p q \<Longrightarrow>
   differ_only_autoStart (savePreferences p s1) (savePreferences q s2)"
  by (simp add: differ_only_autoStart_def savePreferences_def setItem_def
      stringify_preferences_def prefs_agree_def prefs_json_agree_def)

lemma differ_saveTimerConfig:
  "differ_only_autoStart s1 s2 \<Longrightarrow>
   differ_only_autoStart (saveTimerConfig c s1) (saveTimerConfig c s2)"
  by (simp add: differ_only_autoStart_def saveTimerConfig_def setItem_def)

lemma differ_setItem_SESSIONS:
  "differ_only_autoStart s1 s2 \<Longrightarrow>
   differ_only_autoStart (setItem s1 SESSIONS_update v) (setItem s2 SESSIONS_update v)"
  by (simp add: differ_only_autoStart_def setItem_def)

lemma differ_setItem_STATISTICS:
  "differ_only_autoStart s1 s2 \<Longrightarrow>
   differ_only_autoStart (setItem s1 STATISTICS_update v) (setItem s2 STATISTICS_update v)"
  by (simp add: differ_only_autoStart_def setItem_def)

lemma differ_updateStatistics:
  assumes "differ_only_autoStart s1 s2"
  shows "rel_sum (=) differ_only_autoStart
     (updateStatistics tz now session s1) (updateStatistics tz now session s2)"
proof (cases "getStatistics s2")
  case (Inl e)
  with differ_getStatistics[OF assms] show ?thesis
    by (simp add: updateStatistics_def)
next
  case (Inr st)
  with differ_getStatistics[OF assms] show ?thesis
    by (simp add: updateStatistics_def Let_def differ_setItem_STATISTICS differ_init[OF assms])
qed

lemma differ_saveSession:
  assumes "differ_only_autoStart s1 s2"
  shows "rel_sum (=) differ_only_autoStart
     (saveSession tz now uuid session s1) (saveSession tz now uuid session s2)"
proof (cases "getSessions s2")
  case (Inl e)
  with differ_getSessions[OF assms] show ?thesis
    by (simp add: saveSession_def)
next
  case (Inr ss)
  with differ_getSessions[OF assms] show ?thesis
    by (simp add: saveSession_def Let_def differ_updateStatistics differ_setItem_SESSIONS
        differ_init[OF assms])
qed

lemma rel_sum_cases [consumes 1, case_names Inl Inr]:
  assumes "rel_sum R S x y"
    and "\<And>a b. x = Inl a \<Longrightarrow> y = Inl b \<Longrightarrow> R a b \<Longrightarrow> P"
    and "\<And>a b. x = Inr a \<Longrightarrow> y = Inr b \<Longrightarrow> S a b \<Longrightarrow> P"
  shows P
  using assms by (auto elim: rel_sum.cases)

lemma machines_agree_fields:
  assumes "machines_agree m1 m2"
  shows "differ_only_autoStart (store m1) (store m2)" "config m1 = config m2"
    "stats m1 = stats m2" "state m1 = state m2" "isTransitioning m1 = isTransitioning m2"
    "isMuted m1 = isMuted m2" "sessionStartTime m1 = sessionStartTime m2"
    "timeouts m1 = timeouts m2"
  using assms by (simp_all add: machines_agree_def)

lemma agree_saveCompletedSession:
  assumes "machines_agree m1 m2"
  shows "rel_sum (=) machines_agree
     (saveCompletedSession tz now uuid m1) (saveCompletedSession tz now uuid m2)"
proof (cases "sessionStartTime m2")
  case None
  with assms show ?thesis
    by (simp add: saveCompletedSession_def machines_agree_fields)
next
  case (Some started)
  define session where "session =
     \<lparr>session_id = [], startTime = started, endTime = now,
      phase = currentPhase (state m2), completed = True,
      duration = Math_round (getCurrentPhaseDuration (config m2) (currentPhase (state m2)) * 60)\<rparr>"
  have rel: "rel_sum (=) differ_only_autoStart
     (saveSession tz now uuid session (store m1)) (saveSession tz now uuid session (store m2))"
    using assms by (intro differ_saveSession) (simp add: machines_agree_def)
  have unfold1: "saveCompletedSession tz now uuid m1 =
     (case saveSession tz now uuid session (store m1) of
        Inl e \<Rightarrow> Inl e
      | Inr s1 \<Rightarrow>
          (case getStatistics s1 of
             Inl e \<Rightarrow> Inl e
           | Inr updatedStats \<Rightarrow>
               Inr (m1\<lparr>store := initializeStorage s1, stats := updatedStats,
                      state := (state m1)\<lparr>completedSessions :=
                        stats_completedSessions updatedStats\<rparr>\<rparr>)))"
    using Some assms
    by (simp add: saveCompletedSession_def session_def Let_def machines_agree_fields)
  have unfold2: "saveCompletedSession tz now uuid m2 =
     (case saveSession tz now uuid session (store m2) of
        Inl e \<Rightarrow> Inl e
      | Inr s1 \<Rightarrow>
          (case getStatistics s1 of
             Inl e \<Rightarrow> Inl e
           | Inr updatedStats \<Rightarrow>
               Inr (m2\<lparr>store := initializeStorage s1, stats := updatedStats,
                      state := (state m2)\<lparr>completedSessions :=
                        stats_completedSessions updatedStats\<rparr>\<rparr>)))"
    using Some by (simp add: saveCompletedSession_def session_def Let_def)
  from rel show ?thesis
  proof (cases rule: rel_sum_cases)
    case (Inl a b)
    then show ?thesis by (simp add: unfold1 unfold2)
  next
    case (Inr a b)
    note ab = Inr
    show ?thesis
    proof (cases "getStatistics b")
      case (Inl e)
      with ab differ_getStatistics[OF ab(3)] show ?thesis
        by (simp add: unfold1 unfold2)
    next
      case (Inr st)
      with ab differ_getStatistics[OF ab(3)] differ_init[OF ab(3)] assms show ?thesis
        by (simp add: unfold1 unfold2 machines_agree_def)
    qed
  qed
qed

lemma agree_handlePhaseComplete:
  assumes "machines_agree m1 m2"
  shows "rel_sum (=) machines_agree
     (handlePhaseComplete tz now uuid m1) (handlePhaseComplete tz now uuid m2)"
proof -
  have a: "machines_agree (m1\<lparr>isTransitioning := True\<rparr>) (m2\<lparr>isTransitioning := True\<rparr>)"
    using assms by (simp add: machines_agree_def)
  from agree_saveCompletedSession[OF a, of tz now uuid] show ?thesis
  proof (cases rule: rel_sum_cases)
    case (Inl x y)
    then show ?thesis by (simp add: handlePhaseComplete_def)
  next
    case (Inr x y)
    with assms show ?thesis
      by (simp add: handlePhaseComplete_def Let_def machines_agree_def)
  qed
qed

lemma agree_tick:
  assumes "machines_agree m1 m2"
  shows "rel_sum (=) machines_agree (tick tz now uuid m1) (tick tz now uuid m2)"
proof -
  have "machines_agree (m1\<lparr>state := (state m1)\<lparr>timeRemaining := timeRemaining (state m1) - 1\<rparr>\<rparr>)
          (m2\<lparr>state := (state m2)\<lparr>timeRemaining := timeRemaining (state m2) - 1\<rparr>\<rparr>)"
    using assms by (simp add: machines_agree_def)
  with assms agree_handlePhaseComplete[OF assms, of tz now uuid] show ?thesis
    by (simp add: tick_def machines_agree_fields)
qed

lemma agree_handleMuteToggle:
  assumes "machines_agree m1 m2"
  shows "rel_sum (=) machines_agree (handleMuteToggle m1) (handleMuteToggle m2)"
proof -
  have d: "differ_only_autoStart (store m1) (store m2)"
    using assms by (simp add: machines_agree_def)
  from differ_getPreferences[OF d] show ?thesis
  proof (cases rule: rel_sum_cases)
    case (Inl x y)
    then show ?thesis by (simp add: handleMuteToggle_def Let_def)
  next
    case (Inr p q)
    have "prefs_agree (p\<lparr>sound := isMuted m1\<rparr>) (q\<lparr>sound := isMuted m1\<rparr>)"
      using Inr(3) by (simp add: prefs_agree_def)
    from differ_savePreferences[OF differ_init[OF d] this] Inr assms show ?thesis
      by (simp add: handleMuteToggle_def Let_def machines_agree_def)
  qed
qed

lemma agree_handleSettingsChange:
  assumes "machines_agree m1 m2"
  shows "rel_sum (=) machines_agree (handleSettingsChange m1) (handleSettingsChange m2)"
proof -
  have d: "differ_only_autoStart (store m1) (store m2)"
    using assms by (simp add: machines_agree_def)
  show ?thesis
  proof (cases "getTimerConfig (store m2)")
    case (Inl e)
    with differ_getTimerConfig[OF d] show ?thesis
      by (simp add: handleSettingsChange_def)
  next
    case (Inr c)
    note cfg = Inr
    from differ_getPreferences[OF d] show ?thesis
    proof (cases rule: rel_sum_cases)
      case (Inl x y)
      with cfg differ_getTimerConfig[OF d] show ?thesis
        by (simp add: handleSettingsChange_def)
    next
      case (Inr p q)
      with cfg differ_getTimerConfig[OF d] differ_init[OF d] assms show ?thesis
        by (simp add: handleSettingsChange_def Let_def machines_agree_def prefs_agree_def)
    qed
  qed
qed

lemma agree_step:
  assumes "machines_agree m1 m2"
  shows "rel_sum (=) machines_agree (step tz e m1) (step tz e m2)"
proof (cases e)
  case (Start now)
  with assms show ?thesis by (simp add: startTimer_def machines_agree_def)
next
  case Pause
  with assms show ?thesis by (simp add: pauseTimer_def machines_agree_def)
next
  case Reset
  with assms show ?thesis by (simp add: resetTimer_def machines_agree_def)
next
  case (Tick now uuid)
  with agree_tick[OF assms] show ?thesis by simp
next
  case (Timeout i now)
  have "machines_agree (runTimeout t now (m1\<lparr>timeouts := ts\<rparr>))
          (runTimeout t now (m2\<lparr>timeouts := ts\<rparr>))" for t ts
    using assms by (cases t) (simp_all add: machines_agree_def Let_def)
  with Timeout assms show ?thesis by (simp add: machines_agree_fields)
next
  case MuteToggle
  with agree_handleMuteToggle[OF assms] show ?thesis by simp
next
  case (SettingsSaved c)
  have "machines_agree (m1\<lparr>store := saveTimerConfig c (store m1)\<rparr>)
          (m2\<lparr>store := saveTimerConfig c (store m2)\<rparr>)"
    using assms by (simp add: machines_agree_def differ_saveTimerConfig)
  from agree_handleSettingsChange[OF this] SettingsSaved show ?thesis by simp
qed

lemma agree_run:
  assumes "machines_agree m1 m2"
  shows "rel_sum (=) machines_agree (run tz es m1) (run tz es m2)"
  using assms
proof (induction es arbitrary: m1 m2)
  case Nil
  then show ?case by simp
next
  case (Cons e es)
  from agree_step[OF Cons.prems, of tz e] show ?case
  proof (cases rule: rel_sum_cases)
    case (Inl x y)
    then show ?thesis by simp
  next
    case (Inr x y)
    with Cons.IH[OF Inr(3)] show ?thesis by simp
  qed
qed

lemma agree_mount:
  assumes "differ_only_autoStart s1 s2"
  shows "rel_sum (=) machines_agree (mount s1) (mount s2)"
proof (cases "getTimerConfig s2")
  case (Inl e)
  with differ_getTimerConfig[OF assms] show ?thesis by (simp add: mount_def)
next
  case (Inr c)
  note cfg = Inr
  show ?thesis
  proof (cases "getStatistics s2")
    case (Inl e)
    with cfg differ_getTimerConfig[OF assms] differ_getStatistics[OF assms] show ?thesis
      by (simp add: mount_def)
  next
    case (Inr st)
    note sts = Inr
    from differ_getPreferences[OF assms] show ?thesis
    proof (cases rule: rel_sum_cases)
      case (Inl x y)
      with cfg sts differ_getTimerConfig[OF assms] differ_getStatistics[OF assms] show ?thesis
        by (simp add: mount_def)
    next
      case (Inr p q)
      with cfg sts differ_getTimerConfig[OF assms] differ_getStatistics[OF assms]
        differ_init[OF assms] show ?thesis
        by (simp add: mount_def machines_agree_def prefs_agree_def)
    qed
  qed
qed

lemma agree_observe: "machines_agree m1 m2 \<Longrightarrow> observe m1 = observe m2"
  by (simp add: observe_def machines_agree_def differ_getSessions)

section \<open>The claims about the timer\<close>

subsection \<open>The next phase and the session counter\<close>

text \<open>
  C2: when a phase completes with a cycle length of at least 1, the timeout that
  \<open>handlePhaseComplete\<close> sets up carries the next phase and the next session count:
  from focus the next phase is the long break if
  \<open>(completedSessions + 1) mod sessionsUntilLongBreak = 0\<close> and the break otherwise, and
  the count is one more; from a break or a long break the next phase is focus and the
  count is unchanged. Whenever that timeout runs, it sets the phase and the count to
  these.
\<close>

theorem phase_complete_next_phase:
  assumes "handlePhaseComplete tz now uuid m = Inr m1"
    and "1 \<le> sessionsUntilLongBreak (config m)"
  shows "\<exists>nextPhase nextSessionCount.
     timeouts m1 = timeouts m @ [PhaseTimeout nextPhase nextSessionCount (config m)]
     \<and> nextPhase =
         (if currentPhase (state m) = Focus
          then (if (completedSessions (state m) + 1) mod sessionsUntilLongBreak (config m) = 0
                then LongBreak else Break)
          else Focus)
     \<and> nextSessionCount =
         (if currentPhase (state m) = Focus then completedSessions (state m) + 1
          else completedSessions (state m))
     \<and> (\<forall>now' m'.
           currentPhase (state (runTimeout (last (timeouts m1)) now' m')) = nextPhase
         \<and> completedSessions (state (runTimeout (last (timeouts m1)) now' m')) = nextSessionCount)"
proof -
  have nz: "sessionsUntilLongBreak (config m) \<noteq> 0" using assms(2) by simp
  show ?thesis
    using handlePhaseComplete_timeouts[OF assms(1)] js_rem_zero_iff[OF nz]
    by (simp add: Let_def)
qed

lemma handlePhaseComplete_focus_done:
  "handlePhaseComplete utc 1730680200000 ''id-1'' machine_focus_done =
     Inr (machine_focus_done
       \<lparr>store := \<lparr>isClient = True,
           PREFERENCES = Some (stringify_preferences DEFAULT_PREFERENCES),
           SESSIONS = Some (Json [\<lparr>session_id = ''id-1'', startTime = 1730680188000,
              endTime = 1730680200000, phase = Focus, completed = True, duration = 12\<rparr>]),
           STATISTICS = Some (Json \<lparr>totalFocusTime_opt = Some 12, totalBreakTime_opt = Some 0,
              completedSessions_opt = Some 1, dailyStreak_opt = Some 1,
              lastSessionDate_opt = Some (Some 20031)\<rparr>),
           TIMER_CONFIG = Some (stringify_config DEFAULT_CONFIG)\<rparr>,
        stats := \<lparr>totalFocusTime = 12, totalBreakTime = 0, stats_completedSessions = 1,
           dailyStreak = 1, lastSessionDate = Some 20031\<rparr>,
        state := \<lparr>isRunning = True, isPaused = False, currentPhase = Focus,
               timeRemaining = 0, completedSessions = 1\<rparr>,
        isTransitioning := True,
        timeouts := [PhaseTimeout LongBreak 4 DEFAULT_CONFIG]\<rparr>)"
  by code_simp

theorem phase_complete_next_phase_witness:
  "1 \<le> sessionsUntilLongBreak (config machine_focus_done)
   \<and> (\<exists>m1. handlePhaseComplete utc 1730680200000 ''id-1'' machine_focus_done = Inr m1
        \<and> timeouts m1 = [PhaseTimeout LongBreak 4 DEFAULT_CONFIG]
        \<and> currentPhase (state (runTimeout (last (timeouts m1)) 1730680200500 m1)) = LongBreak
        \<and> completedSessions (state (runTimeout (last (timeouts m1)) 1730680200500 m1)) = 4)"
proof -
  from handlePhaseComplete_focus_done obtain m1 where
    h: "handlePhaseComplete utc 1730680200000 ''id-1'' machine_focus_done = Inr m1" by blast
  have n: "1 \<le> sessionsUntilLongBreak (config machine_focus_done)"
    by (simp add: machine_focus_done_def DEFAULT_CONFIG_def)
  have c: "config machine_focus_done = DEFAULT_CONFIG"
    "timeouts machine_focus_done = []"
    "currentPhase (state machine_focus_done) = Focus"
    "completedSessions (state machine_focus_done) = 3"
    by (simp_all add: machine_focus_done_def)
  have d: "sessionsUntilLongBreak DEFAULT_CONFIG = 4"
    by (simp add: DEFAULT_CONFIG_def)
  from phase_complete_next_phase[OF h n, unfolded c d] have
    "timeouts m1 = [PhaseTimeout LongBreak 4 DEFAULT_CONFIG]
     \<and> currentPhase (state (runTimeout (last (timeouts m1)) 1730680200500 m1)) = LongBreak
     \<and> completedSessions (state (runTimeout (last (timeouts m1)) 1730680200500 m1)) = 4"
    by simp
  with h n show ?thesis by blast
qed

subsection \<open>The state after the transition\<close>





subsection \<open>Reset\<close>

text \<open>
  What \<open>resetTimer\<close> and its timeout do by themselves: \<open>resetTimer\<close> discards the
  session start at once and touches neither the store nor the timer state; its timeout,
  when it runs next, leaves the timer neither running nor paused nor transitioning, with
  the remaining time at the duration that the configuration gives for the current phase.
  Whenever the timeout runs, it takes the duration of the phase in which the button was
  pressed, from the render of that time.
\<close>

lemma reset_then_own_timeout:
  "sessionStartTime (resetTimer m) = None
   \<and> store (resetTimer m) = store m
   \<and> state (resetTimer m) = state m
   \<and> (\<exists>m2. step tz (Timeout (length (timeouts m)) now) (resetTimer m) = Inr m2
        \<and> isRunning (state m2) = False \<and> isPaused (state m2) = False
        \<and> isTransitioning m2 = False
        \<and> timeRemaining (state m2) =
            \<lfloor>(case currentPhase (state m2) of
                 Focus \<Rightarrow> focusDuration (config m2)
               | Break \<Rightarrow> breakDuration (config m2)
               | LongBreak \<Rightarrow> longBreakDuration (config m2)) * 60 + 1/2\<rfloor>
        \<and> currentPhase (state m2) = currentPhase (state m)
        \<and> completedSessions (state m2) = completedSessions (state m)
        \<and> sessionStartTime m2 = None
        \<and> store m2 = store m)
   \<and> (\<forall>now' m'.
        isRunning (state (runTimeout (last (timeouts (resetTimer m))) now' m')) = False
        \<and> isPaused (state (runTimeout (last (timeouts (resetTimer m))) now' m')) = False
        \<and> isTransitioning (runTimeout (last (timeouts (resetTimer m))) now' m') = False
        \<and> timeRemaining (state (runTimeout (last (timeouts (resetTimer m))) now' m')) =
            \<lfloor>(case currentPhase (state m) of
                 Focus \<Rightarrow> focusDuration (config m)
               | Break \<Rightarrow> breakDuration (config m)
               | LongBreak \<Rightarrow> longBreakDuration (config m)) * 60 + 1/2\<rfloor>
        \<and> currentPhase (state (runTimeout (last (timeouts (resetTimer m))) now' m')) =
            currentPhase (state m')
        \<and> store (runTimeout (last (timeouts (resetTimer m))) now' m') = store m')"
  by (cases "currentPhase (state m)"; simp add: resetTimer_def nth_append Math_round_def)

text \<open>The example of the specification: 25 minutes of focus, 37 seconds left.\<close>

lemma reset_example_1500:
  "run utc [Reset, Timeout 0 1730680200300] machine_running_37 =
     Inr (machine_running_37
       \<lparr>state := \<lparr>isRunning = False, isPaused = False, currentPhase = Focus,
                  timeRemaining = 1500, completedSessions = 0\<rparr>,
        sessionStartTime := None\<rparr>)"
  by code_simp

text \<open>
  C7 fails on the code for a reset during the transition of a phase completion: the
  button is not disabled then. With the default configuration (12 seconds of focus, 6 of
  break), when the timeout of the phase runs before that of the reset, the timer ends
  idle in the break with 12 seconds remaining, the duration of the focus phase, with
  the phase and the session count changed and a session start set; when the timeout of
  the reset runs first, the timeout of the phase then starts the break, and the timer
  ends running, not idle.
\<close>

theorem reset_in_transition_stale_duration:
  "map_sum id (\<lambda>m. (state m, isTransitioning m, sessionStartTime m, breakDuration (config m)))
     (mounted_run utc store_absent events_reset_in_transition) =
     Inr (\<lparr>isRunning = False, isPaused = False, currentPhase = Break,
           timeRemaining = 12, completedSessions = 1\<rparr>,
          False, Some 1730680200500, 1/10)
   \<and> map_sum id (\<lambda>m. (state m, isTransitioning m, sessionStartTime m, timeouts m))
     (mounted_run utc store_absent events_reset_in_transition_early) =
     Inr (\<lparr>isRunning = True, isPaused = False, currentPhase = Break,
           timeRemaining = 6, completedSessions = 1\<rparr>,
          False, Some 1730680200500, [])"
  by code_simp

subsection \<open>The countdown\<close>

lemma inv_mounted_run:
  assumes "mounted_run tz s es = Inr m"
  shows "timer_inv m"
proof -
  from assms obtain m0 where "mount s = Inr m0" and "run tz es m0 = Inr m"
    by (auto simp add: mounted_run_def split: sum.splits)
  then show ?thesis using inv_run[OF inv_mount] by blast
qed

lemma tick_decrements:
  assumes "isRunning (state m)" "\<not> isPaused (state m)" "\<not> isTransitioning m"
    "0 < timeRemaining (state m)"
  shows "tick tz now uuid m =
     Inr (m\<lparr>state := (state m)\<lparr>timeRemaining := timeRemaining (state m) - 1\<rparr>\<rparr>)"
  using assms by (simp add: tick_def)

lemma tick_transitioning: "isTransitioning m \<Longrightarrow> tick tz now uuid m = Inr m"
  by (simp add: tick_def)

lemma tick_completes:
  assumes "isRunning (state m)" "\<not> isPaused (state m)" "\<not> isTransitioning m"
    "timeRemaining (state m) = 0"
  shows "tick tz now uuid m = handlePhaseComplete tz now uuid m"
  using assms by (simp add: tick_def)

text \<open>
  C5: the remaining time is not negative in any state that a run of events reaches from
  the mounted timer; a tick of a running timer with time remaining takes one second
  off and changes nothing else; a tick at zero is one call of \<open>handlePhaseComplete\<close>,
  which leaves the remaining time at zero, starts the transition and sets up one
  timeout, after which a further tick changes nothing; and no tick changes anything
  while the timer is transitioning.
\<close>

theorem tick_countdown:
  "(mounted_run tz s es = Inr mr \<longrightarrow> 0 \<le> timeRemaining (state mr))
   \<and> (isRunning (state m) \<and> \<not> isPaused (state m) \<and> \<not> isTransitioning m
        \<and> 0 < timeRemaining (state m) \<longrightarrow>
      tick tz now uuid m =
        Inr (m\<lparr>state := (state m)\<lparr>timeRemaining := timeRemaining (state m) - 1\<rparr>\<rparr>))
   \<and> (isRunning (state m) \<and> \<not> isPaused (state m) \<and> \<not> isTransitioning m
        \<and> timeRemaining (state m) = 0 \<longrightarrow>
      tick tz now uuid m = handlePhaseComplete tz now uuid m
      \<and> (\<forall>m1. tick tz now uuid m = Inr m1 \<longrightarrow>
            timeRemaining (state m1) = 0 \<and> isTransitioning m1
            \<and> length (timeouts m1) = length (timeouts m) + 1
            \<and> (\<forall>now' uuid'. tick tz now' uuid' m1 = Inr m1)))
   \<and> (isTransitioning m \<longrightarrow> tick tz now uuid m = Inr m)"
proof -
  have reach: "0 \<le> timeRemaining (state mr)" if "mounted_run tz s es = Inr mr"
    using inv_mounted_run[OF that] by (simp add: timer_inv_def)
  have dec: "tick tz now uuid m =
        Inr (m\<lparr>state := (state m)\<lparr>timeRemaining := timeRemaining (state m) - 1\<rparr>\<rparr>)"
    if "isRunning (state m) \<and> \<not> isPaused (state m) \<and> \<not> isTransitioning m
        \<and> 0 < timeRemaining (state m)"
    using that by (simp add: tick_decrements)
  have complete: "tick tz now uuid m = handlePhaseComplete tz now uuid m
      \<and> (\<forall>m1. tick tz now uuid m = Inr m1 \<longrightarrow>
            timeRemaining (state m1) = 0 \<and> isTransitioning m1
            \<and> length (timeouts m1) = length (timeouts m) + 1
            \<and> (\<forall>now' uuid'. tick tz now' uuid' m1 = Inr m1))"
    if en: "isRunning (state m) \<and> \<not> isPaused (state m) \<and> \<not> isTransitioning m
        \<and> timeRemaining (state m) = 0"
  proof -
    have t: "tick tz now uuid m = handlePhaseComplete tz now uuid m"
      using en by (simp add: tick_completes)
    have "timeRemaining (state m1) = 0 \<and> isTransitioning m1
            \<and> length (timeouts m1) = length (timeouts m) + 1
            \<and> (\<forall>now' uuid'. tick tz now' uuid' m1 = Inr m1)"
      if "tick tz now uuid m = Inr m1" for m1
    proof -
      from that t have h: "handlePhaseComplete tz now uuid m = Inr m1" by simp
      from handlePhaseComplete_fields[OF h] handlePhaseComplete_timeouts[OF h] en
      show ?thesis by (simp add: tick_transitioning)
    qed
    with t show ?thesis by blast
  qed
  have idle: "tick tz now uuid m = Inr m" if "isTransitioning m"
    using that by (rule tick_transitioning)
  from reach dec complete idle show ?thesis by blast
qed

lemma mounted_run_example:
  "map_sum id (\<lambda>m. timeRemaining (state m))
     (mounted_run utc store_absent events_one_focus) = Inr 6"
  by code_simp

lemma tick_focus_done:
  "isRunning (state machine_focus_done) \<and> \<not> isPaused (state machine_focus_done)
   \<and> \<not> isTransitioning machine_focus_done \<and> timeRemaining (state machine_focus_done) = 0"
  by (simp add: machine_focus_done_def)

theorem tick_countdown_witness:
  "(\<exists>mr. mounted_run utc store_absent events_one_focus = Inr mr
        \<and> 0 \<le> timeRemaining (state mr))
   \<and> tick utc 1730680200000 ''id-1'' machine_running_37 =
       Inr (machine_running_37
         \<lparr>state := \<lparr>isRunning = True, isPaused = False, currentPhase = Focus,
                    timeRemaining = 36, completedSessions = 0\<rparr>\<rparr>)
   \<and> (\<exists>m1. tick utc 1730680200000 ''id-1'' machine_focus_done = Inr m1
         \<and> timeRemaining (state m1) = 0 \<and> isTransitioning m1
         \<and> length (timeouts m1) = 1
         \<and> tick utc 1730680201000 ''id-2'' m1 = Inr m1)"
proof -
  note t = tick_countdown[of utc store_absent events_one_focus]
  obtain mr where
    mr: "mounted_run utc store_absent events_one_focus = Inr mr"
    using mounted_run_example
    by (cases "mounted_run utc store_absent events_one_focus") simp_all
  have a: "\<exists>mr. mounted_run utc store_absent events_one_focus = Inr mr
        \<and> 0 \<le> timeRemaining (state mr)"
    using t[of mr] mr by blast
  have b: "tick utc 1730680200000 ''id-1'' machine_running_37 =
       Inr (machine_running_37
         \<lparr>state := \<lparr>isRunning = True, isPaused = False, currentPhase = Focus,
                    timeRemaining = 36, completedSessions = 0\<rparr>\<rparr>)"
    using t[of mr machine_running_37 1730680200000 "''id-1''"]
    by (simp add: machine_running_37_def)
  obtain m1 where m1: "tick utc 1730680200000 ''id-1'' machine_focus_done = Inr m1"
    using handlePhaseComplete_focus_done tick_focus_done by (simp add: tick_completes)
  have c: "timeRemaining (state m1) = 0 \<and> isTransitioning m1
         \<and> length (timeouts m1) = 1
         \<and> tick utc 1730680201000 ''id-2'' m1 = Inr m1"
    using t[of mr machine_focus_done 1730680200000 "''id-1''"] tick_focus_done m1
    by (simp add: machine_focus_done_def)
  from a b c m1 show ?thesis by blast
qed

subsection \<open>The auto-start preferences\<close>

text \<open>
  C10: two runs of the same events from stores that differ only in \<open>autoStartBreaks\<close>
  and \<open>autoStartPomodoros\<close> end in the same error or in the same timer state and the
  same session history.
\<close>

theorem autoStart_preferences_not_read:
  assumes "differ_only_autoStart s1 s2"
  shows "map_sum id observe (mounted_run tz s1 es) = map_sum id observe (mounted_run tz s2 es)"
proof -
  have "rel_sum (=) machines_agree (mounted_run tz s1 es) (mounted_run tz s2 es)"
    using agree_mount[OF assms]
  proof (cases rule: rel_sum_cases)
    case (Inl x y)
    then show ?thesis by (simp add: mounted_run_def)
  next
    case (Inr x y)
    with agree_run[OF Inr(3)] show ?thesis by (simp add: mounted_run_def)
  qed
  then show ?thesis
    by (cases rule: rel_sum_cases) (simp_all add: agree_observe)
qed

lemma autoStart_run_example:
  "map_sum id observe (mounted_run utc store_autoStart_on events_one_focus) =
   Inr (\<lparr>isRunning = True, isPaused = False, currentPhase = Break, timeRemaining = 6,
         completedSessions = 1\<rparr>,
        Inr [\<lparr>session_id = ''id-1'', startTime = 1730680188000, endTime = 1730680200000,
              phase = Focus, completed = True, duration = 12\<rparr>])"
  by code_simp

theorem autoStart_preferences_not_read_witness:
  "differ_only_autoStart store_autoStart_on store_autoStart_off
   \<and> PREFERENCES store_autoStart_on \<noteq> PREFERENCES store_autoStart_off
   \<and> map_sum id observe (mounted_run utc store_autoStart_off events_one_focus) =
       Inr (\<lparr>isRunning = True, isPaused = False, currentPhase = Break, timeRemaining = 6,
             completedSessions = 1\<rparr>,
            Inr [\<lparr>session_id = ''id-1'', startTime = 1730680188000,
                  endTime = 1730680200000, phase = Focus, completed = True,
                  duration = 12\<rparr>])"
proof -
  have d: "differ_only_autoStart store_autoStart_on store_autoStart_off"
    by (simp add: differ_only_autoStart_def store_autoStart_on_def store_autoStart_off_def
        prefs_json_agree_def)
  have n: "PREFERENCES store_autoStart_on \<noteq> PREFERENCES store_autoStart_off"
    by (simp add: store_autoStart_on_def store_autoStart_off_def)
  from autoStart_preferences_not_read[OF d, of utc events_one_focus]
    autoStart_run_example d n
  show ?thesis by simp
qed

end
